theory Spec2Isabelle
  imports Complex_Main "HOL-Library.Multiset" "HOL-Library.Sublist"
begin

section \<open>Python text primitives\<close>

text \<open>
  A Python \<^verbatim>\<open>str\<close> is a sequence of code points. The model keeps the code points
  below 256, one \<^typ>\<open>char\<close> each, so \<^const>\<open>length\<close> is Python's \<^verbatim>\<open>len\<close>.
  \<^verbatim>\<open>print\<close> calls of the source write to standard output only and are left out.
\<close>

definition code :: "char \<Rightarrow> nat" where
  "code c = of_char c"

text \<open>\<^verbatim>\<open>str.isspace\<close> on one code point; it is also what \<^verbatim>\<open>\s\<close> accepts in \<^verbatim>\<open>re\<close>.\<close>

definition is_space :: "char \<Rightarrow> bool" where
  "is_space c = (code c \<in> {9, 10, 11, 12, 13, 28, 29, 30, 31, 32, 133, 160})"

text \<open>The line boundaries of \<^verbatim>\<open>str.splitlines\<close> (a CR LF pair counts once).\<close>

definition is_linebreak :: "char \<Rightarrow> bool" where
  "is_linebreak c = (code c \<in> {10, 11, 12, 13, 28, 29, 30, 133})"

definition is_digit :: "char \<Rightarrow> bool" where
  "is_digit c = (48 \<le> code c \<and> code c \<le> 57)"

definition is_upper :: "char \<Rightarrow> bool" where
  "is_upper c = (65 \<le> code c \<and> code c \<le> 90)"

definition is_lower :: "char \<Rightarrow> bool" where
  "is_lower c = (97 \<le> code c \<and> code c \<le> 122)"

text \<open>\<^verbatim>\<open>\w\<close> of \<^verbatim>\<open>re\<close> on a \<^verbatim>\<open>str\<close> pattern: alphanumeric code points and the underscore.\<close>

definition is_word :: "char \<Rightarrow> bool" where
  "is_word c = (is_digit c \<or> is_upper c \<or> is_lower c \<or> code c = 95
      \<or> code c \<in> {170, 178, 179, 181, 185, 186, 188, 189, 190}
      \<or> (192 \<le> code c \<and> code c \<noteq> 215 \<and> code c \<noteq> 247))"

text \<open>\<^verbatim>\<open>str.lower\<close> on one code point: the ASCII capitals and those of Latin-1.\<close>

definition to_lower :: "char \<Rightarrow> char" where
  "to_lower c =
     (if is_upper c \<or> (192 \<le> code c \<and> code c \<le> 222 \<and> code c \<noteq> 215)
      then char_of (code c + 32) else c)"

definition lower :: "string \<Rightarrow> string" where
  "lower s = map to_lower s"

text \<open>\<^verbatim>\<open>s.strip()\<close>\<close>

definition strip :: "string \<Rightarrow> string" where
  "strip s = rev (dropWhile is_space (rev (dropWhile is_space s)))"

text \<open>\<^verbatim>\<open>s.split()\<close>: the maximal runs of non-whitespace, \<open>cur\<close> being the run in progress.\<close>

fun split_acc :: "string \<Rightarrow> string \<Rightarrow> string list" where
  "split_acc cur [] = (if cur = [] then [] else [cur])"
| "split_acc cur (c # cs) =
     (if is_space c then (if cur = [] then split_acc [] cs else cur # split_acc [] cs)
      else split_acc (cur @ [c]) cs)"

definition split :: "string \<Rightarrow> string list" where
  "split s = split_acc [] s"

text \<open>\<^verbatim>\<open>sep.join(xs)\<close>\<close>

fun join :: "string \<Rightarrow> string list \<Rightarrow> string" where
  "join sep [] = []"
| "join sep [x] = x"
| "join sep (x # y # ys) = x @ sep @ join sep (y # ys)"

text \<open>\<^verbatim>\<open>s.splitlines()\<close>\<close>

fun splitlines_acc :: "string \<Rightarrow> string \<Rightarrow> string list" where
  "splitlines_acc cur [] = (if cur = [] then [] else [cur])"
| "splitlines_acc cur (c # cs) =
     (if code c = 13 \<and> cs \<noteq> [] \<and> code (hd cs) = 10 then cur # splitlines_acc [] (tl cs)
      else if is_linebreak c then cur # splitlines_acc [] cs
      else splitlines_acc (cur @ [c]) cs)"

definition splitlines :: "string \<Rightarrow> string list" where
  "splitlines s = splitlines_acc [] s"

text \<open>
  \<^verbatim>\<open>xs[i:]\<close> for any integer \<open>i\<close>: a negative start counts from the end, and
  \<^verbatim>\<open>xs[-0:]\<close> is \<^verbatim>\<open>xs[0:]\<close>, the whole list.
\<close>

definition slice_from :: "int \<Rightarrow> 'a list \<Rightarrow> 'a list" where
  "slice_from i xs =
     (let n = int (length xs);
          j = (if i < 0 then max 0 (n + i) else min i n)
      in drop (nat j) xs)"

text \<open>\<^verbatim>\<open>xs[:k]\<close> for any integer \<open>k\<close>.\<close>

definition slice_to :: "int \<Rightarrow> 'a list \<Rightarrow> 'a list" where
  "slice_to k xs =
     (let n = int (length xs);
          j = (if k < 0 then max 0 (n + k) else min k n)
      in take (nat j) xs)"

section \<open>Regular expressions as \<^verbatim>\<open>re\<close> runs them\<close>

text \<open>
  The patterns of the source are kept as syntax trees and run by a backtracking matcher
  that lists the ways a pattern can match from a position, best first, in the order
  \<^verbatim>\<open>re\<close> tries them: the left alternative before the right one, one more repetition
  before stopping. The head of that list is the match \<^verbatim>\<open>re\<close> reports.
\<close>

datatype cclass =
    Ch char
  | Range char char
  | OneOf "char list"
  | Space
  | Digit

datatype regex =
    Eps
  | Atom cclass
  | Seq regex regex
  | Alt regex regex
  | Opt regex
  | Star regex
  | Group regex
  | Bol
  | Eol
  | WordB

text \<open>\<open>r+\<close> is \<open>r r*\<close>.\<close>

definition Plus :: "regex \<Rightarrow> regex" where
  "Plus r = Seq r (Star r)"

fun lit :: "string \<Rightarrow> regex" where
  "lit [] = Eps"
| "lit (c # cs) = Seq (Atom (Ch c)) (lit cs)"

text \<open>One character against a class; \<open>ic\<close> is the flag \<^verbatim>\<open>re.IGNORECASE\<close>.\<close>

fun cc_match :: "bool \<Rightarrow> cclass \<Rightarrow> char \<Rightarrow> bool" where
  "cc_match ic (Ch a) c = (if ic then to_lower a = to_lower c else a = c)"
| "cc_match ic (Range lo hi) c =
     ((code lo \<le> code c \<and> code c \<le> code hi)
      \<or> (ic \<and> (is_upper c \<or> is_lower c)
          \<and> ((code lo \<le> code (to_lower c) \<and> code (to_lower c) \<le> code hi)
              \<or> (code lo + 32 \<le> code (to_lower c) \<and> code (to_lower c) \<le> code hi + 32))))"
| "cc_match ic (OneOf cs) c = (c \<in> set cs)"
| "cc_match ic Space c = is_space c"
| "cc_match ic Digit c = is_digit c"

text \<open>
  A position in the subject: the text before it (reversed), the text from it on, and what
  group 1 has captured so far.
\<close>

type_synonym mstate = "string \<times> string \<times> string option"

definition at_word_boundary :: "string \<Rightarrow> string \<Rightarrow> bool" where
  "at_word_boundary pre rest =
     ((pre \<noteq> [] \<and> is_word (hd pre)) \<noteq> (rest \<noteq> [] \<and> is_word (hd rest)))"

text \<open>
  The first argument after the flag is fuel for \<open>Star\<close>: one unit per repetition. Every
  repetition in the patterns below consumes a character, so the length of the subject plus
  one is never used up.
\<close>

fun rmatch :: "bool \<Rightarrow> nat \<Rightarrow> regex \<Rightarrow> mstate \<Rightarrow> mstate list" where
  "rmatch ic n Eps st = [st]"
| "rmatch ic n (Atom cl) (pre, rest, cap) =
     (case rest of [] \<Rightarrow> []
      | c # cs \<Rightarrow> if cc_match ic cl c then [(c # pre, cs, cap)] else [])"
| "rmatch ic n (Seq r1 r2) st = concat (map (\<lambda>s. rmatch ic n r2 s) (rmatch ic n r1 st))"
| "rmatch ic n (Alt r1 r2) st = rmatch ic n r1 st @ rmatch ic n r2 st"
| "rmatch ic n (Opt r) st = rmatch ic n r st @ [st]"
| "rmatch ic 0 (Star r) st = [st]"
| "rmatch ic (Suc n) (Star r) st =
     concat (map (\<lambda>s. rmatch ic n (Star r) s) (rmatch ic (Suc n) r st)) @ [st]"
| "rmatch ic n (Group r) (pre, rest, cap) =
     map (\<lambda>(pre', rest', cap'). (pre', rest', Some (take (length rest - length rest') rest)))
       (rmatch ic n r (pre, rest, cap))"
| "rmatch ic n Bol (pre, rest, cap) = (if pre = [] then [(pre, rest, cap)] else [])"
| "rmatch ic n Eol (pre, rest, cap) =
     (if rest = [] \<or> (length rest = 1 \<and> code (hd rest) = 10) then [(pre, rest, cap)] else [])"
| "rmatch ic n WordB (pre, rest, cap) =
     (if at_word_boundary pre rest then [(pre, rest, cap)] else [])"

text \<open>\<^verbatim>\<open>pattern.match(s)\<close>: a match at position 0, or none.\<close>

definition re_match :: "bool \<Rightarrow> regex \<Rightarrow> string \<Rightarrow> mstate option" where
  "re_match ic r s =
     (case rmatch ic (Suc (length s)) r ([], s, None) of [] \<Rightarrow> None | m # _ \<Rightarrow> Some m)"

text \<open>
  \<^verbatim>\<open>re.search\<close> from a position: the leftmost start at which the pattern matches. The
  result is the text before the match (reversed) and the state at the end of the match.
\<close>

fun search_from :: "bool \<Rightarrow> regex \<Rightarrow> string \<Rightarrow> string \<Rightarrow> (string \<times> mstate) option" where
  "search_from ic r pre [] =
     (case rmatch ic 1 r (pre, [], None) of [] \<Rightarrow> None | m # _ \<Rightarrow> Some (pre, m))"
| "search_from ic r pre (c # cs) =
     (case rmatch ic (Suc (Suc (length cs))) r (pre, c # cs, None) of
        [] \<Rightarrow> search_from ic r (c # pre) cs
      | m # _ \<Rightarrow> Some (pre, m))"

definition re_search :: "bool \<Rightarrow> regex \<Rightarrow> string \<Rightarrow> (string \<times> mstate) option" where
  "re_search ic r s = search_from ic r [] s"

text \<open>Group 1 of a match.\<close>

definition group1 :: "(string \<times> mstate) option \<Rightarrow> string option" where
  "group1 m = (case m of None \<Rightarrow> None | Some (_, (_, _, cap)) \<Rightarrow> cap)"

text \<open>
  \<^verbatim>\<open>re.split\<close> for a pattern that matches no empty string: \<open>piece\<close> is the text since
  the last separator; at each position the pattern is tried, and a match closes the piece
  and moves past the separator. The fuel bounds the number of pieces by the length of
  the subject.
\<close>

fun split_loop :: "nat \<Rightarrow> regex \<Rightarrow> string \<Rightarrow> string \<Rightarrow> string \<Rightarrow> string list" where
  "split_loop 0 r pre piece rest = [piece @ rest]"
| "split_loop (Suc n) r pre piece [] = [piece]"
| "split_loop (Suc n) r pre piece (c # cs) =
     (case rmatch False (Suc (Suc (length cs))) r (pre, c # cs, None) of
        [] \<Rightarrow> split_loop n r (c # pre) (piece @ [c]) cs
      | (pre', rest', _) # _ \<Rightarrow>
          if length rest' < Suc (length cs) then piece # split_loop n r pre' [] rest'
          else split_loop n r (c # pre) (piece @ [c]) cs)"

definition re_split :: "regex \<Rightarrow> string \<Rightarrow> string list" where
  "re_split r s = split_loop (Suc (length s)) r [] [] s"

section \<open>Semantic chunker (\<^verbatim>\<open>ingest/chunk.py\<close>)\<close>

text \<open>\<^verbatim>\<open>^(Host|Guest|Speaker \d+|Interviewer):\<close>, compiled with \<^verbatim>\<open>re.IGNORECASE\<close>.\<close>

definition speaker_pattern :: regex where
  "speaker_pattern =
     Seq Bol (Seq (Group (Alt (lit ''Host'') (Alt (lit ''Guest'')
       (Alt (Seq (lit ''Speaker '') (Plus (Atom Digit))) (lit ''Interviewer'')))))
       (Atom (Ch CHR '':'')))"

text \<open>\<^verbatim>\<open>\n\s*\n\<close>\<close>

definition paragraph_break :: regex where
  "paragraph_break = Seq (Atom (Ch CHR 0x0A)) (Seq (Star (Atom Space)) (Atom (Ch CHR 0x0A)))"

text \<open>\<^verbatim>\<open>[l.strip() for l in text.splitlines() if l.strip()]\<close>\<close>

definition stripped_lines :: "string \<Rightarrow> string list" where
  "stripped_lines t = map strip (filter (\<lambda>l. strip l \<noteq> []) (splitlines t))"

text \<open>The loop over the lines: \<open>blocks\<close> and \<open>current\<close> are the two lists it appends to.\<close>

fun speaker_loop :: "string list \<Rightarrow> string list \<Rightarrow> string list \<Rightarrow> string list \<times> string list" where
  "speaker_loop blocks current [] = (blocks, current)"
| "speaker_loop blocks current (line # lines) =
     (if re_match True speaker_pattern line \<noteq> None \<and> current \<noteq> []
      then speaker_loop (blocks @ [join '' '' current]) [line] lines
      else speaker_loop blocks (current @ [line]) lines)"

definition speaker_blocks :: "string \<Rightarrow> string list" where
  "speaker_blocks t =
     (case speaker_loop [] [] (stripped_lines t) of
        (blocks, current) \<Rightarrow> if current \<noteq> [] then blocks @ [join '' '' current] else blocks)"

definition paragraph_blocks :: "string \<Rightarrow> string list" where
  "paragraph_blocks t = map strip (filter (\<lambda>b. strip b \<noteq> []) (re_split paragraph_break t))"

text \<open>The list \<open>blocks\<close> as it stands when the accumulation loop starts.\<close>

definition blocks_of :: "string \<Rightarrow> string list" where
  "blocks_of t =
     (if length (speaker_blocks t) < 3 then paragraph_blocks t else speaker_blocks t)"

text \<open>
  \<^verbatim>\<open>int(len(txt.split()) * 1.3)\<close>. The product is a double; for a word count \<open>n\<close> below
  \<open>2^45\<close>, which a text in memory stays under, its integer part is \<open>13 n div 10\<close>: the double nearest to 1.3 exceeds 1.3 by
  less than \<open>10^-16\<close>, a multiple of 10 gives a product that rounds to the integer
  \<open>13 n / 10\<close>, and any other \<open>n\<close> gives a product at least 0.1 away from an integer.
\<close>

definition estimate_tokens :: "string \<Rightarrow> int" where
  "estimate_tokens txt = (13 * int (length (split txt))) div 10"

text \<open>
  \<^verbatim>\<open>int(overlap / 1.3)\<close>: the quotient \<open>10 overlap / 13\<close> cut towards zero. This is the
  value of the source for an overlap of absolute value below \<open>2^45\<close>, the range of a
  number of tokens (the double quotient of a multiple of 13 rounds to the integer, any
  other is at least \<open>1/13\<close> away from one). Beyond it the rounding of the double
  quotient can differ from the exact one, and an integer too large for a double makes the
  source raise \<^verbatim>\<open>OverflowError\<close>; neither is modelled.
\<close>

definition overlap_words :: "int \<Rightarrow> int" where
  "overlap_words overlap =
     (if 0 \<le> overlap then (10 * overlap) div 13 else - ((10 * (- overlap)) div 13))"

text \<open>
  One pass of the body of \<^verbatim>\<open>for block in blocks\<close> on the loop variables
  \<open>(chunks, buffer, token_count)\<close>.
\<close>

definition chunk_step :: "int \<Rightarrow> int \<Rightarrow> string list \<times> string list \<times> int \<Rightarrow> string
    \<Rightarrow> string list \<times> string list \<times> int" where
  "chunk_step max_tokens overlap s block =
     (case s of (chunks, buffer, token_count) \<Rightarrow>
        let tokens = estimate_tokens block in
        if token_count + tokens > max_tokens then
          let chunk_text = join '' '' buffer;
              buffer' = slice_from (- overlap_words overlap) (split chunk_text)
          in (chunks @ [chunk_text], buffer' @ [block],
              estimate_tokens (join '' '' buffer') + tokens)
        else (chunks, buffer @ [block], token_count + tokens))"

definition chunk_loop :: "int \<Rightarrow> int \<Rightarrow> string list \<Rightarrow> string list \<times> string list \<times> int" where
  "chunk_loop max_tokens overlap blocks = foldl (chunk_step max_tokens overlap) ([], [], 0) blocks"

text \<open>The list \<open>chunks\<close> after the loop and the final append.\<close>

definition chunk_texts :: "int \<Rightarrow> int \<Rightarrow> string list \<Rightarrow> string list" where
  "chunk_texts max_tokens overlap blocks =
     (case chunk_loop max_tokens overlap blocks of
        (chunks, buffer, _) \<Rightarrow> if buffer \<noteq> [] then chunks @ [join '' '' buffer] else chunks)"

record chunk =
  ctext :: string
  timestamp :: "string option"
  paragraph_index :: nat

definition chunk_by_semantic_windows :: "string \<Rightarrow> int \<Rightarrow> int \<Rightarrow> chunk list" where
  "chunk_by_semantic_windows t max_tokens overlap =
     map (\<lambda>(idx, c). \<lparr>ctext = c, timestamp = None, paragraph_index = idx\<rparr>)
       (enumerate 0 (chunk_texts max_tokens overlap (blocks_of t)))"

section \<open>Title parser (\<^verbatim>\<open>ingest/chunk.py\<close>)\<close>

text \<open>\<^verbatim>\<open>[A-Z][a-z]+\<close>\<close>

definition cap_word :: regex where
  "cap_word = Seq (Atom (Range CHR ''A'' CHR ''Z'')) (Plus (Atom (Range CHR ''a'' CHR ''z'')))"

text \<open>\<^verbatim>\<open>([A-Z][a-z]+(?:\s+[A-Z][a-z]+)+)\<close>, the group every pattern captures.\<close>

definition name_group :: regex where
  "name_group = Group (Seq cap_word (Plus (Seq (Plus (Atom Space)) cap_word)))"

text \<open>\<^verbatim>\<open>\bwith\s+(...)\<close>, searched with \<^verbatim>\<open>re.IGNORECASE\<close>.\<close>

definition with_pattern :: regex where
  "with_pattern = Seq WordB (Seq (lit ''with'') (Seq (Plus (Atom Space)) name_group))"

text \<open>\<^verbatim>\<open>\b(?:ft\.?|featuring)\s+(...)\<close>, searched with \<^verbatim>\<open>re.IGNORECASE\<close>.\<close>

definition featuring_pattern :: regex where
  "featuring_pattern =
     Seq WordB (Seq (Alt (Seq (lit ''ft'') (Opt (Atom (Ch CHR ''.'')))) (lit ''featuring''))
       (Seq (Plus (Atom Space)) name_group))"

text \<open>\<^verbatim>\<open>^(...)\s+on\s+\<close>\<close>

definition on_pattern :: regex where
  "on_pattern =
     Seq Bol (Seq name_group (Seq (Plus (Atom Space)) (Seq (lit ''on'') (Plus (Atom Space)))))"

text \<open>\<^verbatim>\<open>[|\-]\s*(...)\s*$\<close>\<close>

definition trailing_pattern :: regex where
  "trailing_pattern =
     Seq (Atom (OneOf ''|-'')) (Seq (Star (Atom Space))
       (Seq name_group (Seq (Star (Atom Space)) Eol)))"

definition extract_guest_from_title :: "string \<Rightarrow> string \<times> string option" where
  "extract_guest_from_title title =
     (case re_search True with_pattern title of
        Some m \<Rightarrow> (title, group1 (Some m))
      | None \<Rightarrow>
     (case re_search True featuring_pattern title of
        Some m \<Rightarrow> (title, group1 (Some m))
      | None \<Rightarrow>
     (case re_search False on_pattern title of
        Some m \<Rightarrow> (title, group1 (Some m))
      | None \<Rightarrow>
     (case re_search False trailing_pattern title of
        Some m \<Rightarrow> (title, group1 (Some m))
      | None \<Rightarrow> (title, None)))))"

section \<open>Exceptions and JSON values\<close>

text \<open>
  A raised exception is a value: its class, as far as the handlers of the source tell
  classes apart, and its message, \<^verbatim>\<open>str(e)\<close>. \<open>RuntimeError\<close> and \<open>ValueError\<close>
  stand for the class or a subclass of it, \<open>OtherException\<close> for any other subclass of
  \<^verbatim>\<open>Exception\<close>. A function that may raise returns \<open>exn + 'a\<close>, \<open>Inl\<close> being the raise.
\<close>

datatype exn_kind = ValueError | RuntimeError | KeyError | IndexError | OtherException

datatype exn = Exn exn_kind string

fun kind :: "exn \<Rightarrow> exn_kind" where
  "kind (Exn k m) = k"

text \<open>\<^verbatim>\<open>str(e)\<close>\<close>

fun str :: "exn \<Rightarrow> string" where
  "str (Exn k m) = m"

text \<open>
  The values stored under the keys of a hit's \<^verbatim>\<open>_source\<close>: a string or \<^verbatim>\<open>None\<close>. The
  dictionary itself is a list of key-value pairs read with \<^const>\<open>map_of\<close>.
\<close>

datatype jv = JNull | JStr string

type_synonym source = "(string \<times> jv) list"

text \<open>
  A search hit as \<^verbatim>\<open>hybrid_search\<close> builds it, with the key \<^verbatim>\<open>_rerank_score\<close> that
  reranking adds (\<open>None\<close>: the key is absent). Scores are floats; all that is used of them
  is their order, so the score type \<open>'s\<close> is any linear order with a zero.
\<close>

record 's hit =
  hit_id :: "string option"
  hit_score :: "'s option"
  hit_source :: source
  rerank_score :: "'s option"

section \<open>Reranker (\<^verbatim>\<open>rerank/cross_encoder.py\<close>)\<close>

definition DEFAULT_RERANK_MODEL :: string where
  "DEFAULT_RERANK_MODEL = ''cross-encoder/ms-marco-MiniLM-L-6-v2''"

text \<open>
  The collaborator: whether \<^verbatim>\<open>sentence_transformers\<close> could be imported, the constructor
  \<^verbatim>\<open>CrossEncoder(model)\<close> and the method \<^verbatim>\<open>predict(pairs)\<close> of a constructed model. A
  model handle is a number.
\<close>

record 's rerank_env =
  cross_encoder_installed :: bool
  new_cross_encoder :: "string \<Rightarrow> exn + nat"
  predict :: "nat \<Rightarrow> (string \<times> jv) list \<Rightarrow> exn + 's list"

datatype rerank_event = Constructed string | Predicted nat "(string \<times> jv) list"

text \<open>The global \<^verbatim>\<open>_rerank_model\<close> and a log of the calls made to the collaborator.\<close>

record rerank_state =
  rerank_model :: "nat option"
  rerank_log :: "rerank_event list"

definition get_rerank_model :: "'s rerank_env \<Rightarrow> string option \<Rightarrow> rerank_state
    \<Rightarrow> (exn + nat) \<times> rerank_state" where
  "get_rerank_model e model_name s =
     (case rerank_model s of
        Some m \<Rightarrow> (Inr m, s)
      | None \<Rightarrow>
          if \<not> cross_encoder_installed e then
            (Inl (Exn RuntimeError (''`sentence-transformers` is required for reranking. ''
                @ ''Install it with: `pip install sentence-transformers`.'')), s)
          else
            let model = (case model_name of None \<Rightarrow> DEFAULT_RERANK_MODEL
                         | Some n \<Rightarrow> if n = [] then DEFAULT_RERANK_MODEL else n);
                s1 = s\<lparr>rerank_log := rerank_log s @ [Constructed model]\<rparr>
            in (case new_cross_encoder e model of
                  Inl x \<Rightarrow> (Inl x, s1)
                | Inr m \<Rightarrow> (Inr m, s1\<lparr>rerank_model := Some m\<rparr>)))"

text \<open>\<^verbatim>\<open>hit.get("_source", {}).get("chunk_text", "")\<close>\<close>

definition pair_text :: "'s hit \<Rightarrow> jv" where
  "pair_text h = (case map_of (hit_source h) ''chunk_text'' of None \<Rightarrow> JStr [] | Some v \<Rightarrow> v)"

text \<open>The loop \<^verbatim>\<open>hit["_rerank_score"] = float(scores[i])\<close>, for scores enough for every hit.\<close>

definition attach_scores :: "'s hit list \<Rightarrow> 's list \<Rightarrow> 's hit list" where
  "attach_scores hits scores = map2 (\<lambda>h sc. h\<lparr>rerank_score := Some sc\<rparr>) hits scores"

text \<open>\<^verbatim>\<open>x.get("_rerank_score", 0)\<close>\<close>

definition rerank_key :: "('s::{linorder,zero}) hit \<Rightarrow> 's" where
  "rerank_key h = (case rerank_score h of None \<Rightarrow> 0 | Some v \<Rightarrow> v)"

text \<open>
  \<^verbatim>\<open>sorted(xs, key=key, reverse=True)\<close>: the list is reversed, sorted upwards by a stable
  sort and reversed again, which is how equal keys keep their order.
\<close>

definition sorted_reverse :: "('a \<Rightarrow> 'k::linorder) \<Rightarrow> 'a list \<Rightarrow> 'a list" where
  "sorted_reverse key xs = rev (sort_key key (rev xs))"

text \<open>
  \<^verbatim>\<open>rerank_results\<close>. The hits are values here: the function returns the hits with their
  scores, where the source writes the score into each dictionary it was given. With
  fewer scores than hits, \<^verbatim>\<open>scores[i]\<close> raises at the first hit without a score; in the
  source the hits before it have been given theirs by then, which the exception returned
  here does not show.
\<close>

definition rerank_results :: "('s::{linorder,zero}) rerank_env \<Rightarrow> string \<Rightarrow> 's hit list
    \<Rightarrow> int option \<Rightarrow> string option \<Rightarrow> rerank_state \<Rightarrow> (exn + 's hit list) \<times> rerank_state" where
  "rerank_results e query hits top_k model_name s =
     (if hits = [] then (Inr [], s)
      else
        let pairs = map (\<lambda>h. (query, pair_text h)) hits in
        case get_rerank_model e model_name s of
          (Inl x, s1) \<Rightarrow> (Inl x, s1)
        | (Inr m, s1) \<Rightarrow>
            let s2 = s1\<lparr>rerank_log := rerank_log s1 @ [Predicted m pairs]\<rparr> in
            (case predict e m pairs of
               Inl x \<Rightarrow> (Inl x, s2)
             | Inr scores \<Rightarrow>
                 if length scores < length hits then
                   (Inl (Exn IndexError ''list index out of range''), s2)
                 else
                   let reranked = sorted_reverse rerank_key (attach_scores hits scores)
                   in (Inr (case top_k of None \<Rightarrow> reranked | Some k \<Rightarrow> slice_to k reranked),
                       s2)))"

section \<open>Context assembler (\<^verbatim>\<open>build_context\<close> of \<^verbatim>\<open>llm/prompt.py\<close>)\<close>

text \<open>Sequencing of computations that may raise: the first raise ends the computation.\<close>

definition seq :: "exn + 'a \<Rightarrow> ('a \<Rightarrow> exn + 'b) \<Rightarrow> exn + 'b" where
  "seq m f = (case m of Inl x \<Rightarrow> Inl x | Inr v \<Rightarrow> f v)"

text \<open>\<^verbatim>\<open>src[k]\<close>, which raises \<^verbatim>\<open>KeyError\<close> on a missing key.\<close>

definition subscript :: "source \<Rightarrow> string \<Rightarrow> exn + jv" where
  "subscript src k =
     (case map_of src k of
        None \<Rightarrow> Inl (Exn KeyError ([CHR 0x27] @ k @ [CHR 0x27]))
      | Some v \<Rightarrow> Inr v)"

text \<open>A value inside an f-string.\<close>

fun fmt :: "jv \<Rightarrow> string" where
  "fmt JNull = ''None''"
| "fmt (JStr s) = s"

text \<open>The truth value of \<^verbatim>\<open>src.get(k)\<close>.\<close>

definition truthy :: "source \<Rightarrow> string \<Rightarrow> bool" where
  "truthy src k = (case map_of src k of Some (JStr s) \<Rightarrow> s \<noteq> [] | _ \<Rightarrow> False)"

definition truncation_marker :: string where
  "truncation_marker = ''... [truncated]''"

text \<open>\<^verbatim>\<open>s.rsplit(" ", 1)[0]\<close>: the text before the last space, or all of it.\<close>

definition before_last_space :: "string \<Rightarrow> string" where
  "before_last_space s =
     (if CHR '' '' \<in> set s then rev (tl (dropWhile (\<lambda>c. c \<noteq> CHR '' '') (rev s))) else s)"

text \<open>\<^verbatim>\<open>src.get("chunk_text", "") or ""\<close>\<close>

definition source_chunk_text :: "source \<Rightarrow> string" where
  "source_chunk_text src = (case map_of src ''chunk_text'' of Some (JStr t) \<Rightarrow> t | _ \<Rightarrow> [])"

text \<open>
  The variable \<^verbatim>\<open>chunk_text\<close> as it is rendered; \<open>max_chars\<close> is the module constant
  \<^verbatim>\<open>CONTEXT_CHUNK_MAX_CHARS\<close>, an integer read from the environment (800 by default).
\<close>

definition render_chunk_text :: "int \<Rightarrow> source \<Rightarrow> string" where
  "render_chunk_text max_chars src =
     (let chunk_text = source_chunk_text src in
      if max_chars \<noteq> 0 \<and> int (length chunk_text) > max_chars then
        let truncated = slice_to max_chars chunk_text;
            truncated' = (if CHR '' '' \<in> set truncated then before_last_space truncated
                          else truncated)
        in truncated' @ truncation_marker
      else chunk_text)"

text \<open>The f-string of the loop body, up to the chunk text.\<close>

definition record_header :: "string \<Rightarrow> string \<Rightarrow> string \<Rightarrow> string \<Rightarrow> string \<Rightarrow> string \<Rightarrow> string
    \<Rightarrow> string" where
  "record_header title podcast_name host guest_info date timestamp_info url =
     ''EPISODE: '' @ title @ ''\<newline>''
     @ ''PODCAST: '' @ podcast_name @ '' - Host: '' @ host @ guest_info @ ''\<newline>''
     @ ''DATE: '' @ date @ timestamp_info @ ''\<newline>''
     @ ''URL: '' @ url @ ''\<newline>''
     @ ''TRANSCRIPT:\<newline>''"

text \<open>
  One pass of the loop body: the record rendered for a hit. The lookups that can raise
  are made in the order of the source.
\<close>

definition render_hit :: "int \<Rightarrow> 's hit \<Rightarrow> exn + string" where
  "render_hit max_chars h =
     (let src = hit_source h in
      seq (if truthy src ''guest'' then seq (subscript src ''guest'') (\<lambda>g. Inr ('' with '' @ fmt g))
           else Inr []) (\<lambda>guest_info.
      seq (if truthy src ''timestamp''
           then seq (subscript src ''timestamp'') (\<lambda>t. Inr ('' ['' @ fmt t @ '']''))
           else Inr []) (\<lambda>timestamp_info.
      let chunk_text = render_chunk_text max_chars src in
      seq (subscript src ''title'') (\<lambda>title.
      seq (subscript src ''podcast_name'') (\<lambda>podcast_name.
      seq (subscript src ''host'') (\<lambda>host.
      seq (subscript src ''date'') (\<lambda>date.
      seq (subscript src ''url'') (\<lambda>url.
        Inr (record_header (fmt title) (fmt podcast_name) (fmt host) guest_info (fmt date)
               timestamp_info (fmt url)
             @ chunk_text @ ''\<newline>'' @ ''---'')))))))))"

fun render_hits :: "int \<Rightarrow> 's hit list \<Rightarrow> exn + string list" where
  "render_hits max_chars [] = Inr []"
| "render_hits max_chars (h # hs) =
     seq (render_hit max_chars h) (\<lambda>c. seq (render_hits max_chars hs) (\<lambda>cs. Inr (c # cs)))"

definition build_context :: "int \<Rightarrow> 's hit list \<Rightarrow> exn + string" where
  "build_context max_chars hits =
     seq (render_hits max_chars hits) (\<lambda>chunks. Inr (join ''\<newline>\<newline>'' chunks))"

section \<open>Generation router (\<^verbatim>\<open>llm/prompt.py\<close>)\<close>

datatype ModelType = PHI3_MINI | TINYLLAMA | LLAMA3_8B

text \<open>The value of an enum member, and that value in capitals (for the variable names).\<close>

fun model_value :: "ModelType \<Rightarrow> string" where
  "model_value PHI3_MINI = ''phi3_mini''"
| "model_value TINYLLAMA = ''tinyllama''"
| "model_value LLAMA3_8B = ''llama3_8b''"

fun model_value_upper :: "ModelType \<Rightarrow> string" where
  "model_value_upper PHI3_MINI = ''PHI3_MINI''"
| "model_value_upper TINYLLAMA = ''TINYLLAMA''"
| "model_value_upper LLAMA3_8B = ''LLAMA3_8B''"

text \<open>The table \<^verbatim>\<open>MODEL_CONFIGS\<close>, one function per key. A float is the real it denotes.\<close>

fun path_env :: "ModelType \<Rightarrow> string" where
  "path_env PHI3_MINI = ''PHI3_MODEL_PATH''"
| "path_env TINYLLAMA = ''TINYLLAMA_MODEL_PATH''"
| "path_env LLAMA3_8B = ''LLAMA3_8B_MODEL_PATH''"

fun default_max_tokens :: "ModelType \<Rightarrow> int" where
  "default_max_tokens PHI3_MINI = 500"
| "default_max_tokens TINYLLAMA = 250"
| "default_max_tokens LLAMA3_8B = 1000"

fun default_n_ctx :: "ModelType \<Rightarrow> int" where
  "default_n_ctx PHI3_MINI = 4096"
| "default_n_ctx TINYLLAMA = 2048"
| "default_n_ctx LLAMA3_8B = 8192"

fun default_temperature :: "ModelType \<Rightarrow> real" where
  "default_temperature mt = 0.2"

fun description :: "ModelType \<Rightarrow> string" where
  "description PHI3_MINI = ''Phi-3 Mini (Main LLM)''"
| "description TINYLLAMA = ''TinyLlama (Fast Fallback)''"
| "description LLAMA3_8B = ''Llama-3.1-8B (Bigger Option)''"

text \<open>
  What the router sees of the process and its collaborators: whether \<^verbatim>\<open>llama_cpp\<close>
  could be imported, \<^verbatim>\<open>os.getenv\<close>, the module constants read from the environment at
  import, the built-ins \<^verbatim>\<open>int\<close> and \<^verbatim>\<open>float\<close> on a string, the constructor
  \<^verbatim>\<open>Llama(model_path, temperature, n_ctx, ...)\<close> and the call of a loaded model
  \<^verbatim>\<open>model(prompt, max_tokens, temperature)\<close>. A model handle is a number. The answer of
  a model may depend on everything done before, so the call takes the trace so far. A
  response is the list under its key \<^verbatim>\<open>choices\<close> (empty when the key is absent), each
  choice being the string under its key \<^verbatim>\<open>text\<close>, if any.
\<close>

datatype gen_event = Load ModelType | Call nat string int real

record gen_env =
  llama_installed :: bool
  getenv :: "string \<Rightarrow> string option"
  PRIMARY_MODEL :: string
  FALLBACK_MODEL :: string
  USE_BIGGER_MODEL :: bool
  py_int :: "string \<Rightarrow> exn + int"
  py_float :: "string \<Rightarrow> exn + real"
  new_llama :: "string \<Rightarrow> real \<Rightarrow> int \<Rightarrow> exn + nat"
  complete :: "gen_event list \<Rightarrow> nat \<Rightarrow> string \<Rightarrow> int \<Rightarrow> real \<Rightarrow> exn + string option list"

text \<open>
  The global \<^verbatim>\<open>_loaded_models\<close> and a trace: every entry into \<^verbatim>\<open>_load_model\<close> and
  every call of a model, in order.
\<close>

record gen_state =
  loaded :: "ModelType \<Rightarrow> nat option"
  trace :: "gen_event list"

text \<open>\<^verbatim>\<open>sub in s\<close>\<close>

fun contains :: "string \<Rightarrow> string \<Rightarrow> bool" where
  "contains sub [] = (sub = [])"
| "contains sub (c # cs) = (prefix sub (c # cs) \<or> contains sub cs)"

text \<open>\<^verbatim>\<open>int(os.getenv(name, default))\<close> and \<^verbatim>\<open>float(os.getenv(name, default))\<close>\<close>

definition env_int :: "gen_env \<Rightarrow> string \<Rightarrow> int \<Rightarrow> exn + int" where
  "env_int e name dflt = (case getenv e name of None \<Rightarrow> Inr dflt | Some v \<Rightarrow> py_int e v)"

definition env_float :: "gen_env \<Rightarrow> string \<Rightarrow> real \<Rightarrow> exn + real" where
  "env_float e name dflt = (case getenv e name of None \<Rightarrow> Inr dflt | Some v \<Rightarrow> py_float e v)"

text \<open>\<^verbatim>\<open>not path\<close>\<close>

definition unset :: "string option \<Rightarrow> bool" where
  "unset path = (path = None \<or> path = Some [])"

definition get_model_path :: "gen_env \<Rightarrow> ModelType \<Rightarrow> string option" where
  "get_model_path e model_type =
     (let path = getenv e (path_env model_type) in
      if unset path then
        (case getenv e ''LLAMA_MODEL_PATH'' of
           None \<Rightarrow> path
         | Some legacy_path \<Rightarrow>
             if legacy_path = [] then path
             else
               let legacy_lower = lower legacy_path in
               if model_type = LLAMA3_8B
                  \<and> (contains ''llama'' legacy_lower \<or> contains ''8b'' legacy_lower)
               then Some legacy_path
               else if model_type = PHI3_MINI \<and> contains ''phi'' legacy_lower
               then Some legacy_path
               else if model_type = TINYLLAMA \<and> contains ''tiny'' legacy_lower
               then Some legacy_path
               else path)
      else path)"

definition load_model :: "gen_env \<Rightarrow> ModelType \<Rightarrow> gen_state \<Rightarrow> (exn + nat) \<times> gen_state" where
  "load_model e model_type s0 =
     (let s = s0\<lparr>trace := trace s0 @ [Load model_type]\<rparr> in
      if \<not> llama_installed e then
        (Inl (Exn RuntimeError (''`llama-cpp-python` is required. ''
           @ ''Install it with: `pip install llama-cpp-python`.'')), s)
      else
        (case loaded s model_type of
           Some m \<Rightarrow> (Inr m, s)
         | None \<Rightarrow>
             (case get_model_path e model_type of
                None \<Rightarrow>
                  (Inl (Exn RuntimeError (''Model path not set for '' @ model_value model_type
                     @ ''. Set '' @ path_env model_type @ '' environment variable.'')), s)
              | Some model_path \<Rightarrow>
                  if model_path = [] then
                    (Inl (Exn RuntimeError (''Model path not set for '' @ model_value model_type
                       @ ''. Set '' @ path_env model_type @ '' environment variable.'')), s)
                  else
                    (case env_int e (model_value_upper model_type @ ''_N_CTX'')
                            (default_n_ctx model_type) of
                       Inl x \<Rightarrow> (Inl x, s)
                     | Inr n_ctx \<Rightarrow>
                         (case env_float e (model_value_upper model_type @ ''_TEMPERATURE'')
                                 (default_temperature model_type) of
                            Inl x \<Rightarrow> (Inl x, s)
                          | Inr temperature \<Rightarrow>
                              (case new_llama e model_path temperature n_ctx of
                                 Inl x \<Rightarrow> (Inl x, s)
                               | Inr m \<Rightarrow>
                                   (Inr m, s\<lparr>loaded := (loaded s)(model_type \<mapsto> m)\<rparr>)))))))"

definition get_model_type_from_string :: "string \<Rightarrow> exn + ModelType" where
  "get_model_type_from_string model_str =
     (let m = lower model_str in
      if m \<in> set [''phi3'', ''phi3_mini'', ''phi-3-mini''] then Inr PHI3_MINI
      else if m \<in> set [''tinyllama'', ''tiny-llama''] then Inr TINYLLAMA
      else if m \<in> set [''llama3'', ''llama3_8b'', ''llama-3.1-8b'', ''llama-3-8b'']
      then Inr LLAMA3_8B
      else Inl (Exn ValueError (''Unknown model type: '' @ m)))"

text \<open>The body of a \<^verbatim>\<open>try\<close> that names a model and loads it.\<close>

definition load_named :: "gen_env \<Rightarrow> string \<Rightarrow> gen_state \<Rightarrow> (exn + nat) \<times> gen_state" where
  "load_named e name s =
     (case get_model_type_from_string name of
        Inl x \<Rightarrow> (Inl x, s)
      | Inr model_type \<Rightarrow> load_model e model_type s)"

text \<open>\<^verbatim>\<open>except (ValueError, RuntimeError)\<close>\<close>

definition value_or_runtime :: "exn \<Rightarrow> bool" where
  "value_or_runtime x = (kind x = ValueError \<or> kind x = RuntimeError)"

definition get_fallback_model :: "gen_env \<Rightarrow> gen_state \<Rightarrow> (exn + nat) \<times> gen_state" where
  "get_fallback_model e s =
     (case load_named e (FALLBACK_MODEL e) s of
        (Inr m, s1) \<Rightarrow> (Inr m, s1)
      | (Inl x, s1) \<Rightarrow>
          if value_or_runtime x then
            (Inl (Exn RuntimeError (''Failed to load fallback model ('' @ FALLBACK_MODEL e
               @ ''): '' @ str x @ ''. '' @ ''Please configure at least one model path.'')), s1)
          else (Inl x, s1))"

definition get_primary_model :: "gen_env \<Rightarrow> gen_state \<Rightarrow> (exn + nat) \<times> gen_state" where
  "get_primary_model e s =
     (case load_named e (PRIMARY_MODEL e) s of
        (Inr m, s1) \<Rightarrow> (Inr m, s1)
      | (Inl x, s1) \<Rightarrow>
          if value_or_runtime x then get_fallback_model e s1 else (Inl x, s1))"

definition get_bigger_model :: "gen_env \<Rightarrow> gen_state \<Rightarrow> (exn + nat option) \<times> gen_state" where
  "get_bigger_model e s =
     (if \<not> USE_BIGGER_MODEL e then (Inr None, s)
      else
        (case load_model e LLAMA3_8B s of
           (Inr m, s1) \<Rightarrow> (Inr (Some m), s1)
         | (Inl x, s1) \<Rightarrow> if kind x = RuntimeError then (Inr None, s1) else (Inl x, s1)))"

text \<open>
  The variables \<^verbatim>\<open>model\<close>, \<^verbatim>\<open>model_name\<close>, \<^verbatim>\<open>max_tokens\<close> and \<^verbatim>\<open>temperature\<close> of
  \<^verbatim>\<open>generate_answer\<close>.
\<close>

type_synonym selection = "nat option \<times> string \<times> int \<times> real"

definition initial_selection :: selection where
  "initial_selection = (None, ''unknown'', 250, 0.2)"

text \<open>The settings taken from the table once a model of that type is chosen.\<close>

definition chosen :: "nat \<Rightarrow> ModelType \<Rightarrow> selection" where
  "chosen m model_type =
     (Some m, description model_type, default_max_tokens model_type,
      default_temperature model_type)"

text \<open>The bigger model for long contexts.\<close>

definition select_bigger :: "gen_env \<Rightarrow> string \<Rightarrow> bool \<Rightarrow> gen_state
    \<Rightarrow> (exn + selection) \<times> gen_state" where
  "select_bigger e prompt use_bigger_for_long_context s =
     (if use_bigger_for_long_context \<and> length prompt > 4000 then
        (case get_bigger_model e s of
           (Inl x, s1) \<Rightarrow> (Inl x, s1)
         | (Inr None, s1) \<Rightarrow> (Inr initial_selection, s1)
         | (Inr (Some m), s1) \<Rightarrow>
             (Inr (Some m, ''Llama-3.1-8B'', default_max_tokens LLAMA3_8B,
                   default_temperature LLAMA3_8B), s1))
      else (Inr initial_selection, s))"

text \<open>The model preference, if one is given and no model is chosen yet.\<close>

definition select_preferred :: "gen_env \<Rightarrow> string option \<Rightarrow> selection \<Rightarrow> gen_state
    \<Rightarrow> (exn + selection) \<times> gen_state" where
  "select_preferred e model_preference sel s =
     (case model_preference of
        None \<Rightarrow> (Inr sel, s)
      | Some preference \<Rightarrow>
          if fst sel = None \<and> preference \<noteq> [] then
            (case load_named e preference s of
               (Inr m, s1) \<Rightarrow>
                 (case get_model_type_from_string preference of
                    Inr model_type \<Rightarrow> (Inr (chosen m model_type), s1)
                  | Inl x \<Rightarrow> if value_or_runtime x then (Inr sel, s1) else (Inl x, s1))
             | (Inl x, s1) \<Rightarrow> if value_or_runtime x then (Inr sel, s1) else (Inl x, s1))
          else (Inr sel, s))"

text \<open>
  The primary model. The handler of this \<^verbatim>\<open>try\<close> is \<^verbatim>\<open>except RuntimeError\<close>, and the
  second statement of its body converts \<^verbatim>\<open>PRIMARY_MODEL\<close> once more.
\<close>

definition select_primary :: "gen_env \<Rightarrow> selection \<Rightarrow> gen_state
    \<Rightarrow> (exn + selection) \<times> gen_state" where
  "select_primary e sel s =
     (if fst sel = None then
        (case get_primary_model e s of
           (Inl x, s1) \<Rightarrow> if kind x = RuntimeError then (Inr sel, s1) else (Inl x, s1)
         | (Inr m, s1) \<Rightarrow>
             (case get_model_type_from_string (PRIMARY_MODEL e) of
                Inl x \<Rightarrow> if kind x = RuntimeError then (Inr sel, s1) else (Inl x, s1)
              | Inr primary_type \<Rightarrow> (Inr (chosen m primary_type), s1)))
      else (Inr sel, s))"

text \<open>
  The fallback model. \<open>Inr (Inl text)\<close> is the early \<^verbatim>\<open>return\<close> of the handler, and a
  selection that leaves this step has a model.
\<close>

definition select_fallback :: "gen_env \<Rightarrow> selection \<Rightarrow> gen_state
    \<Rightarrow> (exn + (string + nat \<times> string \<times> int \<times> real)) \<times> gen_state" where
  "select_fallback e sel s =
     (case sel of
        (Some m, model_name, max_tokens, temperature) \<Rightarrow>
          (Inr (Inr (m, model_name, max_tokens, temperature)), s)
      | (None, _, _, _) \<Rightarrow>
          (case get_fallback_model e s of
             (Inr m, s1) \<Rightarrow>
               (Inr (Inr (m, description TINYLLAMA, default_max_tokens TINYLLAMA,
                          default_temperature TINYLLAMA)), s1)
           | (Inl x, s1) \<Rightarrow>
               if kind x = RuntimeError
               then (Inr (Inl (''Error: No models available. '' @ str x)), s1)
               else (Inl x, s1)))"

text \<open>\<^verbatim>\<open>LLAMA_MAX_TOKENS\<close> and \<^verbatim>\<open>LLAMA_TEMPERATURE\<close> override the settings.\<close>

definition override_settings :: "gen_env \<Rightarrow> nat \<times> string \<times> int \<times> real
    \<Rightarrow> exn + nat \<times> string \<times> int \<times> real" where
  "override_settings e sel =
     (case sel of (m, model_name, max_tokens, temperature) \<Rightarrow>
        seq (env_int e ''LLAMA_MAX_TOKENS'' max_tokens) (\<lambda>max_tokens'.
        seq (env_float e ''LLAMA_TEMPERATURE'' temperature) (\<lambda>temperature'.
          Inr (m, model_name, max_tokens', temperature'))))"

text \<open>Lines 274 to 327 of the source: everything before the first call of a model.\<close>

definition select_model :: "gen_env \<Rightarrow> string \<Rightarrow> string option \<Rightarrow> bool \<Rightarrow> gen_state
    \<Rightarrow> (exn + (string + nat \<times> string \<times> int \<times> real)) \<times> gen_state" where
  "select_model e prompt model_preference use_bigger_for_long_context s =
     (case select_bigger e prompt use_bigger_for_long_context s of
        (Inl x, s1) \<Rightarrow> (Inl x, s1)
      | (Inr sel1, s1) \<Rightarrow>
     (case select_preferred e model_preference sel1 s1 of
        (Inl x, s2) \<Rightarrow> (Inl x, s2)
      | (Inr sel2, s2) \<Rightarrow>
     (case select_primary e sel2 s2 of
        (Inl x, s3) \<Rightarrow> (Inl x, s3)
      | (Inr sel3, s3) \<Rightarrow>
     (case select_fallback e sel3 s3 of
        (Inl x, s4) \<Rightarrow> (Inl x, s4)
      | (Inr (Inl text), s4) \<Rightarrow> (Inr (Inl text), s4)
      | (Inr (Inr sel4), s4) \<Rightarrow>
          (case override_settings e sel4 of
             Inl x \<Rightarrow> (Inl x, s4)
           | Inr sel5 \<Rightarrow> (Inr (Inr sel5), s4))))))"

text \<open>\<^verbatim>\<open>model(prompt, max_tokens=..., temperature=...)\<close>\<close>

definition call_model :: "gen_env \<Rightarrow> nat \<Rightarrow> string \<Rightarrow> int \<Rightarrow> real \<Rightarrow> gen_state
    \<Rightarrow> (exn + string option list) \<times> gen_state" where
  "call_model e m prompt max_tokens temperature s =
     (complete e (trace s) m prompt max_tokens temperature,
      s\<lparr>trace := trace s @ [Call m prompt max_tokens temperature]\<rparr>)"

text \<open>\<^verbatim>\<open>parts[0].get("text", "").strip()\<close>, for a non-empty list.\<close>

definition first_text :: "string option list \<Rightarrow> string" where
  "first_text parts = strip (case hd parts of None \<Rightarrow> [] | Some t \<Rightarrow> t)"

definition low_token_indicators :: "string list" where
  "low_token_indicators = [''exceed context window'', ''Requested tokens'', ''context window'']"

text \<open>\<^verbatim>\<open>any(ind in msg for ind in low_token_indicators)\<close>\<close>

definition overflow_message :: "string \<Rightarrow> bool" where
  "overflow_message msg = list_ex (\<lambda>ind. contains ind msg) low_token_indicators"

definition reduced_note :: "string \<Rightarrow> string" where
  "reduced_note model_name =
     ''\<newline>\<newline>(Note: output was generated with a reduced max token limit due to ''
     @ model_name @ [CHR 0x27] @ ''s context window.)''"

definition fallback_note :: string where
  "fallback_note = ''\<newline>\<newline>(Note: Generated using fallback model due to context limitations.)''"

definition after_reducing :: "exn \<Rightarrow> string" where
  "after_reducing e2 = ''Error generating answer after reducing tokens: '' @ str e2"

text \<open>
  The innermost \<^verbatim>\<open>try\<close>: the fallback model at the settings of TinyLlama. Whatever is
  raised in it is passed over, and the function returns the text of \<open>e2\<close>.
\<close>

definition try_fallback :: "gen_env \<Rightarrow> string \<Rightarrow> exn \<Rightarrow> gen_state \<Rightarrow> string \<times> gen_state" where
  "try_fallback e prompt e2 s =
     (case get_fallback_model e s of
        (Inl x, s1) \<Rightarrow> (after_reducing e2, s1)
      | (Inr fallback_model, s1) \<Rightarrow>
          (case call_model e fallback_model prompt (default_max_tokens TINYLLAMA)
                  (default_temperature TINYLLAMA) s1 of
             (Inl x, s2) \<Rightarrow> (after_reducing e2, s2)
           | (Inr parts, s2) \<Rightarrow>
               if parts \<noteq> [] then (first_text parts @ fallback_note, s2)
               else (after_reducing e2, s2)))"

text \<open>The handler of a first call that raised something caught as an overflow.\<close>

definition retry_reduced :: "gen_env \<Rightarrow> nat \<times> string \<times> int \<times> real \<Rightarrow> string \<Rightarrow> gen_state
    \<Rightarrow> string \<times> gen_state" where
  "retry_reduced e sel prompt s =
     (case sel of (m, model_name, max_tokens, temperature) \<Rightarrow>
        let fallback_max = min 256 max_tokens in
        (case call_model e m prompt fallback_max temperature s of
           (Inr parts, s1) \<Rightarrow>
             if parts = [] then
               (model_name @ '' returned no output after retrying with smaller token limit.'', s1)
             else (first_text parts @ reduced_note model_name, s1)
         | (Inl e2, s1) \<Rightarrow>
             if model_name \<noteq> description TINYLLAMA then try_fallback e prompt e2 s1
             else (after_reducing e2, s1)))"

text \<open>Lines 329 to 383 of the source: the first call and its handlers.\<close>

definition run_generation :: "gen_env \<Rightarrow> nat \<times> string \<times> int \<times> real \<Rightarrow> string \<Rightarrow> gen_state
    \<Rightarrow> string \<times> gen_state" where
  "run_generation e sel prompt s =
     (case sel of (m, model_name, max_tokens, temperature) \<Rightarrow>
        (case call_model e m prompt max_tokens temperature s of
           (Inr parts, s1) \<Rightarrow>
             if parts = [] then (model_name @ '' returned no output.'', s1)
             else (first_text parts, s1)
         | (Inl err, s1) \<Rightarrow>
             if kind err = RuntimeError then
               (''Error with '' @ model_name @ '': '' @ str err, s1)
             else if overflow_message (str err) then retry_reduced e sel prompt s1
             else (''Error generating answer with '' @ model_name @ '': '' @ str err, s1)))"

definition generate_answer :: "gen_env \<Rightarrow> string \<Rightarrow> string option \<Rightarrow> bool \<Rightarrow> gen_state
    \<Rightarrow> (exn + string) \<times> gen_state" where
  "generate_answer e prompt model_preference use_bigger_for_long_context s =
     (case select_model e prompt model_preference use_bigger_for_long_context s of
        (Inl x, s1) \<Rightarrow> (Inl x, s1)
      | (Inr (Inl text), s1) \<Rightarrow> (Inr text, s1)
      | (Inr (Inr sel), s1) \<Rightarrow>
          (case run_generation e sel prompt s1 of (text, s2) \<Rightarrow> (Inr text, s2)))"

text \<open>
  A process in which the three model files are configured and load, \<^verbatim>\<open>int\<close> and
  \<^verbatim>\<open>float\<close> read nothing (no numeric variable is set) and every model answers: the base
  for the concrete runs below. Handles: 1 for Phi-3, 2 for TinyLlama, 3 for Llama-3.
\<close>

definition base_env :: gen_env where
  "base_env =
     \<lparr>llama_installed = True,
      getenv = map_of [(''PHI3_MODEL_PATH'', ''/m/phi3.gguf''),
                       (''TINYLLAMA_MODEL_PATH'', ''/m/tiny.gguf''),
                       (''LLAMA3_8B_MODEL_PATH'', ''/m/llama3.gguf'')],
      PRIMARY_MODEL = ''phi3_mini'',
      FALLBACK_MODEL = ''tinyllama'',
      USE_BIGGER_MODEL = False,
      py_int = (\<lambda>v. Inl (Exn ValueError (''invalid literal for int(): '' @ v))),
      py_float = (\<lambda>v. Inl (Exn ValueError (''could not convert string to float: '' @ v))),
      new_llama = (\<lambda>path temperature n_ctx.
         Inr (if path = ''/m/phi3.gguf'' then 1 else if path = ''/m/tiny.gguf'' then 2 else 3)),
      complete = (\<lambda>tr m prompt max_tokens temperature. Inr [Some '' an answer ''])\<rparr>"

definition initial_state :: gen_state where
  "initial_state = \<lparr>loaded = (\<lambda>_. None), trace = []\<rparr>"

text \<open>The calls of a model made between two states, in order.\<close>

fun is_call :: "gen_event \<Rightarrow> bool" where
  "is_call (Call m prompt max_tokens temperature) = True"
| "is_call (Load model_type) = False"

definition calls_after :: "gen_state \<Rightarrow> gen_state \<Rightarrow> gen_event list" where
  "calls_after s s' = filter is_call (drop (length (trace s)) (trace s'))"

text \<open>
  Three processes for the runs below: the primary model raises an overflow error on every
  call while the others answer; every model raises a \<^verbatim>\<open>RuntimeError\<close> with the text of
  an overflow; and Llama-3 as primary with Phi-3 as fallback, the primary overflowing.
\<close>

definition overflow_error :: exn where
  "overflow_error = Exn ValueError ''Requested tokens (900) exceed context window of 512''"

definition overflowing_primary_env :: gen_env where
  "overflowing_primary_env =
     base_env\<lparr>complete := (\<lambda>tr m prompt max_tokens temperature.
        if m = 1 then Inl overflow_error else Inr [Some '' tiny answer ''])\<rparr>"

definition runtime_error_env :: gen_env where
  "runtime_error_env =
     base_env\<lparr>complete := (\<lambda>tr m prompt max_tokens temperature.
        Inl (Exn RuntimeError ''Requested tokens (900) exceed context window of 512''))\<rparr>"

definition phi3_fallback_env :: gen_env where
  "phi3_fallback_env =
     base_env\<lparr>PRIMARY_MODEL := ''llama3_8b'', FALLBACK_MODEL := ''phi3_mini'',
       complete := (\<lambda>tr m prompt max_tokens temperature.
          if m = 3 then Inl overflow_error else Inr [Some ''phi answer''])\<rparr>"

text \<open>The state once the primary model of \<^const>\<open>base_env\<close> is loaded.\<close>

definition primary_loaded :: gen_state where
  "primary_loaded = \<lparr>loaded = (\<lambda>_. None)(PHI3_MINI \<mapsto> 1), trace = [Load PHI3_MINI]\<rparr>"

section \<open>Embedding, hybrid search and the answer pipeline\<close>

text \<open>
  The query that \<^verbatim>\<open>hybrid_search\<close> sends (its parameter \<^verbatim>\<open>size\<close> is \<open>n_results\<close>
  here): the size, the one \<^verbatim>\<open>must\<close> clause, the
  nearest-neighbour clause (vector and \<open>k\<close>) and the filters (the key \<^verbatim>\<open>filter\<close> is left
  out of the body when there are none).
\<close>

datatype must_clause = Match string | MatchAll

datatype filter_clause = Term string string | Terms string "string list"

record query_body =
  body_size :: int
  body_must :: must_clause
  knn_vector :: "real list"
  knn_k :: int
  body_filters :: "filter_clause list"

text \<open>A hit as the store returns it: each of the three keys may be missing.\<close>

record 's raw_hit =
  raw_id :: "string option"
  raw_score :: "'s option"
  raw_source :: "source option"

text \<open>
  The collaborators of the pipeline: the embedding runtime (installed or not, the
  constructor, the method \<^verbatim>\<open>get_sentence_embedding_dimension\<close> and the method
  \<^verbatim>\<open>encode\<close> of a constructed model), the search of the store, which
  answers with the list under \<^verbatim>\<open>hits.hits\<close> (\<open>None\<close> when a key is missing), the
  constant \<^verbatim>\<open>CONTEXT_CHUNK_MAX_CHARS\<close> and the process seen by the generation router.
\<close>

record 's pipeline_env =
  sentence_transformer_installed :: bool
  new_sentence_transformer :: "exn + nat"
  get_sentence_embedding_dimension :: "nat \<Rightarrow> exn + int"
  encode :: "nat \<Rightarrow> string \<Rightarrow> exn + real list"
  client_search :: "query_body \<Rightarrow> exn + 's raw_hit list option"
  CONTEXT_CHUNK_MAX_CHARS :: int
  generation :: gen_env

text \<open>
  The globals \<^verbatim>\<open>_embedding_model\<close> and \<^verbatim>\<open>EMBEDDING_DIMENSION\<close>, and the state of the
  generation router.
\<close>

record pipeline_state =
  embedding_model :: "nat option"
  EMBEDDING_DIMENSION :: "int option"
  generation_state :: gen_state

text \<open>
  \<^verbatim>\<open>get_embedding_model\<close>. The constructed model is stored in \<^verbatim>\<open>_embedding_model\<close> before
  its dimension is asked for, so it stays stored when that query raises.
\<close>

definition get_embedding_model :: "'s pipeline_env \<Rightarrow> pipeline_state
    \<Rightarrow> (exn + nat) \<times> pipeline_state" where
  "get_embedding_model e s =
     (case embedding_model s of
        Some m \<Rightarrow> (Inr m, s)
      | None \<Rightarrow>
          if \<not> sentence_transformer_installed e then
            (Inl (Exn RuntimeError (''`sentence-transformers` is required. ''
               @ ''Install it with: `pip install sentence-transformers`.'')), s)
          else
            (case new_sentence_transformer e of
               Inl x \<Rightarrow> (Inl x, s)
             | Inr m \<Rightarrow>
                 let s1 = s\<lparr>embedding_model := Some m\<rparr> in
                 (case get_sentence_embedding_dimension e m of
                    Inl x \<Rightarrow> (Inl x, s1)
                  | Inr dimension \<Rightarrow> (Inr m, s1\<lparr>EMBEDDING_DIMENSION := Some dimension\<rparr>))))"

definition embed_text :: "'s pipeline_env \<Rightarrow> string \<Rightarrow> pipeline_state
    \<Rightarrow> (exn + real list) \<times> pipeline_state" where
  "embed_text e txt s =
     (case get_embedding_model e s of
        (Inl x, s1) \<Rightarrow> (Inl x, s1)
      | (Inr model, s1) \<Rightarrow> (encode e model txt, s1))"

definition hybrid_search :: "'s pipeline_env \<Rightarrow> string \<Rightarrow> real list \<Rightarrow> int \<Rightarrow> string option
    \<Rightarrow> string list option \<Rightarrow> exn + 's hit list" where
  "hybrid_search e user_query query_embedding n_results podcast_name topics =
     (let filters =
            (case podcast_name of
               Some n \<Rightarrow> if n \<noteq> [] then [Term ''podcast_name'' n] else []
             | None \<Rightarrow> [])
            @ (case topics of
                 Some ts \<Rightarrow> if ts \<noteq> [] then [Terms ''topics'' ts] else []
               | None \<Rightarrow> []);
          must = (if user_query \<noteq> [] then Match user_query else MatchAll);
          body = \<lparr>body_size = n_results, body_must = must, knn_vector = query_embedding,
                  knn_k = n_results, body_filters = filters\<rparr>
      in seq (client_search e body) (\<lambda>response.
           Inr (map (\<lambda>h. \<lparr>hit_id = raw_id h, hit_score = raw_score h,
                           hit_source = (case raw_source h of None \<Rightarrow> [] | Some src \<Rightarrow> src),
                           rerank_score = None\<rparr>)
                  (case response of None \<Rightarrow> [] | Some hits \<Rightarrow> hits))))"

text \<open>\<^verbatim>\<open>search_transcripts\<close> of \<^verbatim>\<open>rag.py\<close> passes its arguments on.\<close>

definition search_transcripts :: "'s pipeline_env \<Rightarrow> string \<Rightarrow> real list \<Rightarrow> int
    \<Rightarrow> string option \<Rightarrow> string list option \<Rightarrow> exn + 's hit list" where
  "search_transcripts e user_query query_embedding n_results podcast_name topics =
     hybrid_search e user_query query_embedding n_results podcast_name topics"

definition build_podcast_prompt :: "string \<Rightarrow> string \<Rightarrow> string" where
  "build_podcast_prompt user_query context =
     ''You are an assistant that answers questions using ONLY the CONTEXT below. ''
     @ ''If the answer is not in the context, respond: '' @ [CHR 0x27] @ ''I don''
     @ [CHR 0x27] @ ''t know.'' @ [CHR 0x27] @ '' ''
     @ ''When answering, mention the episode title and podcast name, include relevant quotes, ''
     @ ''and cite the episode URL if citing specifics. Do not invent information.\<newline>\<newline>''
     @ ''CONTEXT:\<newline>'' @ context @ ''\<newline>\<newline>''
     @ ''USER QUESTION:\<newline>'' @ user_query @ ''\<newline>\<newline>''
     @ ''Answer:\<newline>''"

text \<open>The fixed answer for an empty result.\<close>

definition no_information :: string where
  "no_information =
     ''I couldn'' @ [CHR 0x27]
     @ ''t find any relevant information in the podcast transcripts.''"

definition ask_podcast_question :: "'s pipeline_env \<Rightarrow> string \<Rightarrow> string option
    \<Rightarrow> string list option \<Rightarrow> int \<Rightarrow> pipeline_state \<Rightarrow> (exn + string) \<times> pipeline_state" where
  "ask_podcast_question e user_query podcast_name topics top_k s =
     (case embed_text e user_query s of
        (Inl x, s1) \<Rightarrow> (Inl x, s1)
      | (Inr query_emb, s1) \<Rightarrow>
          (case search_transcripts e user_query query_emb top_k podcast_name topics of
             Inl x \<Rightarrow> (Inl x, s1)
           | Inr hits \<Rightarrow>
               if hits = [] then (Inr no_information, s1)
               else
                 (case build_context (CONTEXT_CHUNK_MAX_CHARS e) hits of
                    Inl x \<Rightarrow> (Inl x, s1)
                  | Inr context \<Rightarrow>
                      let prompt = build_podcast_prompt user_query context in
                      (case generate_answer (generation e) prompt None False
                              (generation_state s1) of
                         (r, g) \<Rightarrow> (r, s1\<lparr>generation_state := g\<rparr>)))))"

text \<open>A small collaborator and hit list on which the reranker is run below.\<close>

definition demo_hits :: "int hit list" where
  "demo_hits =
     [\<lparr>hit_id = Some ''a'', hit_score = Some 9, hit_source = [(''chunk_text'', JStr ''x'')], rerank_score = None\<rparr>,
      \<lparr>hit_id = Some ''b'', hit_score = Some 8, hit_source = [(''chunk_text'', JStr ''y'')], rerank_score = None\<rparr>,
      \<lparr>hit_id = Some ''c'', hit_score = Some 7, hit_source = [], rerank_score = None\<rparr>]"

definition demo_rerank_env :: "int rerank_env" where
  "demo_rerank_env = \<lparr>cross_encoder_installed = True, new_cross_encoder = (\<lambda>_. Inr 7), predict = (\<lambda>_ _. Inr [1, 3, 1])\<rparr>"

text \<open>A hit whose chunk text is longer than a budget of 10 characters.\<close>

definition demo_source :: source where
  "demo_source =
     [(''chunk_text'', JStr ''hello big wide world''), (''title'', JStr ''T''),
      (''podcast_name'', JStr ''P''), (''host'', JStr ''H''), (''guest'', JNull),
      (''date'', JStr ''D''), (''url'', JStr ''U'')]"

definition demo_context_hits :: "int hit list" where
  "demo_context_hits =
     [\<lparr>hit_id = Some ''a'', hit_score = Some 9, hit_source = demo_source, rerank_score = None\<rparr>]"

text \<open>A store that finds nothing, and one that finds one chunk.\<close>

definition empty_store_env :: "int pipeline_env" where
  "empty_store_env =
     \<lparr>sentence_transformer_installed = True,
      new_sentence_transformer = Inr 9,
      get_sentence_embedding_dimension = (\<lambda>m. Inr 384),
      encode = (\<lambda>m txt. Inr [0.5, 0.25]),
      client_search = (\<lambda>body. Inr (Some [])),
      CONTEXT_CHUNK_MAX_CHARS = 800,
      generation = base_env\<rparr>"

definition one_hit_env :: "int pipeline_env" where
  "one_hit_env =
     empty_store_env\<lparr>client_search := (\<lambda>body.
        Inr (Some [\<lparr>raw_id = Some ''e1_chunk_0'', raw_score = Some 3,
                    raw_source = Some demo_source\<rparr>]))\<rparr>"

definition pipeline_start :: pipeline_state where
  "pipeline_start =
     \<lparr>embedding_model = None, EMBEDDING_DIMENSION = None, generation_state = initial_state\<rparr>"

section \<open>Properties of the semantic chunker\<close>

lemma chunk_step_keeps_head:
  "\<exists>rest buf tc. chunk_step m ov (c # cs, buffer, token_count) b = (c # rest, buf, tc)"
  by (simp add: chunk_step_def Let_def)

lemma chunk_fold_keeps_head:
  "\<exists>rest buf tc.
     foldl (chunk_step m ov) (c # cs, buffer, token_count) bs = (c # rest, buf, tc)"
proof (induction bs arbitrary: cs buffer token_count)
  case Nil
  show ?case by simp
next
  case (Cons b bs)
  obtain rest buf tc where
    "chunk_step m ov (c # cs, buffer, token_count) b = (c # rest, buf, tc)"
    using chunk_step_keeps_head by blast
  with Cons.IH [of rest buf tc] show ?case by simp
qed

lemma estimate_tokens_empty: "estimate_tokens [] = 0"
  by (simp add: estimate_tokens_def split_def)

lemma chunk_step_first_oversized:
  assumes "estimate_tokens b > m"
  shows "chunk_step m ov ([], [], 0) b = ([[]], [b], estimate_tokens b)"
  using assms
  by (simp add: chunk_step_def Let_def split_def slice_from_def estimate_tokens_empty)

lemma chunk_texts_first_oversized:
  assumes "estimate_tokens b > m"
  shows "\<exists>rest. chunk_texts m ov (b # bs) = [] # rest"
proof -
  obtain rest buf tc where
    "foldl (chunk_step m ov) ([[]], [b], estimate_tokens b) bs = ([] # rest, buf, tc)"
    using chunk_fold_keeps_head by blast
  then show ?thesis
    using assms by (simp add: chunk_texts_def chunk_loop_def chunk_step_first_oversized)
qed

text \<open>
  The positions are the indices of the chunks: \<open>0, 1, 2, \<dots>\<close> in this order, for every
  text and every pair of parameters.
\<close>

lemma chunk_positions:
  "map paragraph_index (chunk_by_semantic_windows t m ov) =
     [0..<length (chunk_by_semantic_windows t m ov)]"
proof -
  have "paragraph_index \<circ> (\<lambda>(idx, c). \<lparr>ctext = c, timestamp = None, paragraph_index = idx\<rparr>)
          = fst"
    by (auto simp: fun_eq_iff)
  then show ?thesis
    by (simp add: chunk_by_semantic_windows_def)
qed

text \<open>
  C3. Claimed: every emitted chunk has an estimated token count of at most \<open>max_tokens\<close>,
  unless it is one oversized block. The code at \<open>max_tokens = 10\<close>, \<open>overlap = 4\<close> on two
  paragraphs of seven words: each block is estimated at 9 tokens, so neither is oversized;
  the first is emitted alone, its last three words seed the next buffer, and the second
  block is appended to the seed without a new test. The last chunk holds ten words,
  estimated at 13 tokens.
\<close>

theorem chunk_exceeds_max_tokens:
  "map estimate_tokens (blocks_of ''a b c d e f g\<newline>\<newline>h i j k l m n'') = [9, 9]
   \<and> map ctext (chunk_by_semantic_windows ''a b c d e f g\<newline>\<newline>h i j k l m n'' 10 4)
       = [''a b c d e f g'', ''e f g h i j k l m n'']
   \<and> estimate_tokens ''e f g h i j k l m n'' = 13"
  by code_simp

text \<open>
  The same bound fails with no seed involved: the running count adds the rounded-down
  estimates of the blocks, and four one-word blocks count 4 while their chunk counts 5.
\<close>

lemma chunk_exceeds_max_tokens_by_rounding:
  "map ctext (chunk_by_semantic_windows ''a\<newline>\<newline>b\<newline>\<newline>c\<newline>\<newline>d\<newline>\<newline>e'' 4 40)
       = [''a b c d'', ''a b c d e'']
   \<and> estimate_tokens ''a b c d'' = 5"
  by code_simp

text \<open>
  C9. Claimed: when \<open>int(overlap / 1.3)\<close> is zero, no word of the emitted chunk is carried
  into the next buffer. The code at \<open>overlap = 0\<close>, \<open>max_tokens = 3\<close> on three paragraphs of
  two words: the slice \<^verbatim>\<open>[-0:]\<close> keeps every word, so each chunk repeats the whole of
  the one before it.
\<close>

theorem zero_overlap_carries_whole_chunk:
  "overlap_words 0 = 0
   \<and> map ctext (chunk_by_semantic_windows ''a b\<newline>\<newline>c d\<newline>\<newline>e f'' 3 0)
       = [''a b'', ''a b c d'', ''a b c d e f'']"
  by code_simp

text \<open>
  C10. When the first block alone is estimated above \<open>max_tokens\<close>, the first chunk
  emitted is the empty string at position 0: the empty buffer is emitted before the
  block is added.
\<close>

theorem first_oversized_block_emits_empty_chunk:
  assumes "blocks_of t = b # bs" and "estimate_tokens b > max_tokens"
  shows "\<exists>rest. chunk_by_semantic_windows t max_tokens overlap =
           \<lparr>ctext = [], timestamp = None, paragraph_index = 0\<rparr> # rest"
proof -
  obtain rest where "chunk_texts max_tokens overlap (b # bs) = [] # rest"
    using chunk_texts_first_oversized [OF assms(2)] by blast
  then show ?thesis
    using assms(1) by (simp add: chunk_by_semantic_windows_def)
qed

theorem first_oversized_block_emits_empty_chunk_witness:
  "blocks_of ''one two three four'' = [''one two three four'']
   \<and> estimate_tokens ''one two three four'' > 3
   \<and> (\<exists>rest. chunk_by_semantic_windows ''one two three four'' 3 40 =
           \<lparr>ctext = [], timestamp = None, paragraph_index = 0\<rparr> # rest)"
proof -
  have b: "blocks_of ''one two three four'' = [''one two three four'']"
    by code_simp
  have e: "estimate_tokens ''one two three four'' > 3"
    by code_simp
  show ?thesis
    using b e first_oversized_block_emits_empty_chunk [OF b e, of 40] by simp
qed

section \<open>Properties of the title parser\<close>

lemma title_returned_unchanged: "fst (extract_guest_from_title t) = t"
  by (simp add: extract_guest_from_title_def split: option.splits)

lemma title_examples:
  "extract_guest_from_title ''AI and the Future with Jane Smith''
     = (''AI and the Future with Jane Smith'', Some ''Jane Smith'')"
  "extract_guest_from_title ''Building Startups ft. John Doe''
     = (''Building Startups ft. John Doe'', Some ''John Doe'')"
  "extract_guest_from_title ''Quarterly Update'' = (''Quarterly Update'', None)"
  by code_simp+

text \<open>
  C8. Claimed: a guest is returned only when a heuristic matches a name of two or more
  capitalized words. The code on the title \<open>Cooking with olive oil\<close>: the first pattern is
  searched with \<^verbatim>\<open>re.IGNORECASE\<close>, under which \<^verbatim>\<open>[A-Z]\<close> and \<^verbatim>\<open>[a-z]\<close> accept letters of
  either case, and the two lower-case words after \<open>with\<close> are returned as the guest.
\<close>

theorem lowercase_words_returned_as_guest:
  "extract_guest_from_title ''Cooking with olive oil''
     = (''Cooking with olive oil'', Some ''olive oil'')"
  by code_simp

section \<open>Properties of the reranker\<close>

text \<open>With no hit nothing is loaded and nothing is predicted, whatever the arguments.\<close>

lemma rerank_nothing: "rerank_results e query [] top_k model_name s = (Inr [], s)"
  by (simp add: rerank_results_def)

lemma mset_sorted_reverse: "mset (sorted_reverse f xs) = mset xs"
  by (simp add: sorted_reverse_def)

lemma sorted_reverse_descending: "sorted_wrt (\<lambda>a b. f a \<ge> f b) (sorted_reverse f xs)"
proof -
  have "sorted (map f (sort_key f (rev xs)))" by simp
  then have "sorted_wrt (\<lambda>a b. f a \<le> f b) (sort_key f (rev xs))"
    by (simp add: sorted_wrt_map)
  then show ?thesis
    by (simp add: sorted_reverse_def sorted_wrt_rev)
qed

lemma sorted_reverse_stable:
  "filter (\<lambda>y. f y = k) (sorted_reverse f xs) = filter (\<lambda>y. f y = k) xs"
  by (simp add: sorted_reverse_def rev_filter [symmetric] sort_key_stable)

lemma length_attach_scores: "length hits \<le> length scores \<Longrightarrow> length (attach_scores hits scores) = length hits"
  by (simp add: attach_scores_def)

lemma nth_attach_scores: "i < length hits \<Longrightarrow> i < length scores \<Longrightarrow> attach_scores hits scores ! i = (hits ! i)\<lparr>rerank_score := Some (scores ! i)\<rparr>"
  by (simp add: attach_scores_def)

lemma attach_scores_clear: "length hits \<le> length scores \<Longrightarrow> map (\<lambda>h. h\<lparr>rerank_score := None\<rparr>) (attach_scores hits scores) = map (\<lambda>h. h\<lparr>rerank_score := None\<rparr>) hits"
  by (induction hits arbitrary: scores) (auto simp: attach_scores_def length_Suc_conv Suc_le_length_iff)

lemma attach_scores_ids: "length hits \<le> length scores \<Longrightarrow> map hit_id (attach_scores hits scores) = map hit_id hits"
  by (induction hits arbitrary: scores) (auto simp: attach_scores_def length_Suc_conv Suc_le_length_iff)

lemma mset_map_sorted_reverse: "mset (map g (sorted_reverse f xs)) = mset (map g xs)"
  by (simp add: sorted_reverse_def)

text \<open>
  C6. With \<open>top_k\<close> absent and a collaborator that loads and returns a score for every
  hit, reranking a non-empty hit list returns the hits with their scores attached, in an
  order that is a permutation of the input (same identifiers, same count, every field but
  the attached score unchanged, so the retrieval score is still there), descending by the
  attached score, with hits of equal score in their input order. On the empty list it
  returns the empty list and leaves the state as it was: no model is loaded or called.
\<close>

theorem rerank_is_stable_descending_permutation:
  fixes e :: "('s::{linorder,zero}) rerank_env"
  assumes "hits \<noteq> []"
    and "get_rerank_model e model_name s = (Inr m, s1)"
    and "predict e m (map (\<lambda>h. (query, pair_text h)) hits) = Inr scores"
    and "length hits \<le> length scores"
  shows "rerank_results e query [] None model_name s = (Inr [], s)
    \<and> (\<exists>out s2. rerank_results e query hits None model_name s = (Inr out, s2)
        \<and> length out = length hits
        \<and> mset (map hit_id out) = mset (map hit_id hits)
        \<and> mset (map (\<lambda>h. h\<lparr>rerank_score := None\<rparr>) out) = mset (map (\<lambda>h. h\<lparr>rerank_score := None\<rparr>) hits)
        \<and> mset out = mset (attach_scores hits scores)
        \<and> (\<forall>i < length hits. attach_scores hits scores ! i = (hits ! i)\<lparr>rerank_score := Some (scores ! i)\<rparr>)
        \<and> sorted_wrt (\<lambda>a b. rerank_key a \<ge> rerank_key b) out
        \<and> (\<forall>v. filter (\<lambda>h. rerank_key h = v) out = filter (\<lambda>h. rerank_key h = v) (attach_scores hits scores)))"
proof -
  let ?scored = "attach_scores hits scores"
  let ?out = "sorted_reverse rerank_key ?scored"
  have empty: "rerank_results e query [] None model_name s = (Inr [], s)"
    by (simp add: rerank_results_def)
  have run: "rerank_results e query hits None model_name s = (Inr ?out, s1\<lparr>rerank_log := rerank_log s1 @ [Predicted m (map (\<lambda>h. (query, pair_text h)) hits)]\<rparr>)"
    using assms by (simp add: rerank_results_def Let_def)
  have len: "length ?out = length hits"
    using assms(4) mset_eq_length [OF mset_sorted_reverse [of rerank_key ?scored]] by (simp add: length_attach_scores)
  have ids: "mset (map hit_id ?out) = mset (map hit_id hits)"
    using assms(4) attach_scores_ids [of hits scores] mset_map_sorted_reverse [of hit_id rerank_key ?scored] by simp
  have clr: "mset (map (\<lambda>h. h\<lparr>rerank_score := None\<rparr>) ?out) = mset (map (\<lambda>h. h\<lparr>rerank_score := None\<rparr>) hits)"
    using assms(4) attach_scores_clear [of hits scores] mset_map_sorted_reverse [of "\<lambda>h. h\<lparr>rerank_score := None\<rparr>" rerank_key ?scored] by simp
  have nth: "\<forall>i < length hits. ?scored ! i = (hits ! i)\<lparr>rerank_score := Some (scores ! i)\<rparr>"
    using assms(4) by (simp add: nth_attach_scores)
  show ?thesis
    using empty run len ids clr nth mset_sorted_reverse [of rerank_key ?scored] sorted_reverse_descending [of rerank_key ?scored] sorted_reverse_stable [of rerank_key _ ?scored]
    by simp
qed

theorem rerank_is_stable_descending_permutation_witness:
  "demo_hits \<noteq> []
   \<and> get_rerank_model demo_rerank_env None \<lparr>rerank_model = None, rerank_log = []\<rparr>
       = (Inr 7, \<lparr>rerank_model = Some 7, rerank_log = [Constructed DEFAULT_RERANK_MODEL]\<rparr>)
   \<and> predict demo_rerank_env 7 (map (\<lambda>h. (''q'', pair_text h)) demo_hits) = Inr [1, 3, 1]
   \<and> length demo_hits \<le> length [1, 3, 1 :: int]
   \<and> (\<exists>out s2. rerank_results demo_rerank_env ''q'' demo_hits None None \<lparr>rerank_model = None, rerank_log = []\<rparr> = (Inr out, s2)
        \<and> map hit_id out = [Some ''b'', Some ''a'', Some ''c'']
        \<and> map hit_score out = [Some 8, Some 9, Some 7])"
proof -
  let ?s = "\<lparr>rerank_model = None, rerank_log = []\<rparr>"
  have h1: "demo_hits \<noteq> []" by (simp add: demo_hits_def)
  have h2: "get_rerank_model demo_rerank_env None ?s
       = (Inr 7, \<lparr>rerank_model = Some 7, rerank_log = [Constructed DEFAULT_RERANK_MODEL]\<rparr>)"
    by (simp add: get_rerank_model_def demo_rerank_env_def)
  have h3: "predict demo_rerank_env 7 (map (\<lambda>h. (''q'', pair_text h)) demo_hits) = Inr [1, 3, 1]"
    by (simp add: demo_rerank_env_def)
  have h4: "length demo_hits \<le> length [1, 3, 1 :: int]" by (simp add: demo_hits_def)
  have run: "fst (rerank_results demo_rerank_env ''q'' demo_hits None None ?s) = Inr (sorted_reverse rerank_key (attach_scores demo_hits [1, 3, 1]))"
    using h2 h3 by (simp add: rerank_results_def Let_def demo_hits_def)
  have val: "map hit_id (sorted_reverse rerank_key (attach_scores demo_hits [1, 3, 1])) = [Some ''b'', Some ''a'', Some ''c'']
     \<and> map hit_score (sorted_reverse rerank_key (attach_scores demo_hits [1, 3, 1])) = [Some 8, Some 9, Some 7]"
    by (simp add: sorted_reverse_def attach_scores_def demo_hits_def rerank_key_def)
  from rerank_is_stable_descending_permutation [OF h1 h2 h3 h4]
  obtain out s2 where o: "rerank_results demo_rerank_env ''q'' demo_hits None None ?s = (Inr out, s2)"
    by blast
  with run val have "map hit_id out = [Some ''b'', Some ''a'', Some ''c''] \<and> map hit_score out = [Some 8, Some 9, Some 7]"
    by simp
  with o h1 h2 h3 h4 show ?thesis by simp
qed

section \<open>Properties of the context assembler\<close>

lemma split_last_space:
  assumes "CHR '' '' \<in> set w"
  shows "\<exists>suf. w = before_last_space w @ CHR '' '' # suf \<and> CHR '' '' \<notin> set suf"
proof -
  let ?P = "\<lambda>c. c \<noteq> CHR '' ''"
  let ?t = "takeWhile ?P (rev w)" and ?d = "dropWhile ?P (rev w)"
  from assms have ne: "?d \<noteq> []" by simp
  then have hd: "hd ?d = CHR '' ''" using hd_dropWhile [of ?P "rev w"] by simp
  have "rev w = ?t @ ?d" by simp
  also have "\<dots> = ?t @ CHR '' '' # tl ?d" using ne hd by (cases ?d) auto
  finally have "w = rev (tl ?d) @ CHR '' '' # rev ?t"
    by (metis rev_append rev.simps(2) rev_rev_ident append_Cons append_Nil append_assoc)
  moreover have "CHR '' '' \<notin> set (rev ?t)" using set_takeWhileD by fastforce
  ultimately show ?thesis using assms by (auto simp: before_last_space_def)
qed

lemma sublist_prepend: "sublist x y \<Longrightarrow> sublist x (p @ y)"
  unfolding sublist_def by (metis append.assoc)

lemma sublist_extend: "sublist x y \<Longrightarrow> sublist x (y @ q)"
  unfolding sublist_def by (metis append.assoc)

lemma sublist_join: "x \<in> set xs \<Longrightarrow> sublist x (join sep xs)"
proof (induction sep xs rule: join.induct)
  case (3 sep a b ys)
  show ?case
  proof (cases "x = a")
    case True
    then show ?thesis by simp
  next
    case False
    with 3 have "sublist x (join sep (b # ys))" by simp
    then show ?thesis by (simp add: sublist_prepend)
  qed
qed simp_all

lemma render_hit_contains_chunk_text:
  "render_hit n h = Inr c \<Longrightarrow> sublist (render_chunk_text n (hit_source h)) c"
  by (auto simp: render_hit_def seq_def Let_def split: if_splits sum.splits)

lemma render_hits_member:
  "render_hits n hs = Inr cs \<Longrightarrow> h \<in> set hs \<Longrightarrow> \<exists>c \<in> set cs. render_hit n h = Inr c"
  by (induction hs arbitrary: cs) (auto simp: seq_def split: sum.splits)

lemma build_context_contains_chunk_text:
  assumes "build_context n hs = Inr out" and "h \<in> set hs"
  shows "sublist (render_chunk_text n (hit_source h)) out"
proof -
  from assms(1) obtain cs where cs: "render_hits n hs = Inr cs" and out: "out = join ''\<newline>\<newline>'' cs"
    by (auto simp: build_context_def seq_def split: sum.splits)
  from render_hits_member [OF cs assms(2)] obtain c where c: "c \<in> set cs" "render_hit n h = Inr c"
    by blast
  have "sublist (render_chunk_text n (hit_source h)) c"
    using c(2) by (rule render_hit_contains_chunk_text)
  moreover have "sublist c out" using c(1) out by (simp add: sublist_join)
  ultimately show ?thesis by (rule sublist_order.order_trans)
qed

lemma render_long_chunk_text:
  assumes "0 < n" and "int (length (source_chunk_text src)) > n"
  shows "\<exists>pre. render_chunk_text n src = pre @ truncation_marker
           \<and> prefix pre (source_chunk_text src)
           \<and> int (length pre) \<le> n
           \<and> (CHR '' '' \<in> set (take (nat n) (source_chunk_text src)) \<longrightarrow>
                source_chunk_text src ! length pre = CHR '' ''
                \<and> CHR '' '' \<notin> set (drop (Suc (length pre)) (take (nat n) (source_chunk_text src))))
           \<and> (CHR '' '' \<notin> set (take (nat n) (source_chunk_text src)) \<longrightarrow>
                pre = take (nat n) (source_chunk_text src))"
proof -
  let ?ct = "source_chunk_text src"
  let ?w = "take (nat n) ?ct"
  have w: "slice_to n ?ct = ?w" using assms by (simp add: slice_to_def Let_def min_def)
  have lw: "int (length ?w) = n" using assms by simp
  show ?thesis
  proof (cases "CHR '' '' \<in> set ?w")
    case False
    then have "render_chunk_text n src = ?w @ truncation_marker"
      using assms w by (simp add: render_chunk_text_def Let_def)
    with False lw show ?thesis by (auto simp: take_is_prefix)
  next
    case True
    let ?pre = "before_last_space ?w"
    from split_last_space [OF True] obtain suf where
      suf: "?w = ?pre @ CHR '' '' # suf" "CHR '' '' \<notin> set suf" by blast
    have r: "render_chunk_text n src = ?pre @ truncation_marker"
      using assms w True by (simp add: render_chunk_text_def Let_def)
    have ct: "?ct = ?pre @ CHR '' '' # suf @ drop (nat n) ?ct"
      using suf(1) append_take_drop_id [of "nat n" ?ct] by (metis append_Cons append_assoc)
    have p: "prefix ?pre ?ct" using ct by (metis prefixI)
    have l: "int (length ?pre) \<le> n"
      using lw suf(1) by (metis length_append le_add1 of_nat_le_iff)
    have c: "?ct ! length ?pre = CHR '' ''" using ct by (metis nth_append_length)
    have d: "drop (Suc (length ?pre)) ?w = suf" using suf(1) by (metis append_eq_conv_conj drop_Suc tl_drop list.sel(3))
    show ?thesis using r p l c d suf(2) True by auto
  qed
qed

lemma render_zero_budget: "render_chunk_text 0 src = source_chunk_text src"
  by (simp add: render_chunk_text_def)

lemma render_long_chunk_text_cut:
  assumes "0 < n" and "int (length (source_chunk_text src)) > n"
  shows "\<exists>pre. render_chunk_text n src = pre @ truncation_marker
           \<and> prefix pre (source_chunk_text src)
           \<and> int (length pre) \<le> n
           \<and> (CHR '' '' \<in> set (take (nat n) (source_chunk_text src)) \<longrightarrow>
                int (length pre) < n
                \<and> source_chunk_text src ! length pre = CHR '' ''
                \<and> CHR '' '' \<notin> set (drop (Suc (length pre)) (take (nat n) (source_chunk_text src))))"
proof -
  let ?ct = "source_chunk_text src"
  let ?w = "take (nat n) ?ct"
  have lw: "int (length ?w) = n" using assms by simp
  from render_long_chunk_text [OF assms] obtain pre where
    p: "render_chunk_text n src = pre @ truncation_marker" "prefix pre ?ct" "int (length pre) \<le> n"
       "CHR '' '' \<in> set ?w \<longrightarrow> ?ct ! length pre = CHR '' ''
          \<and> CHR '' '' \<notin> set (drop (Suc (length pre)) ?w)"
    by blast
  have "int (length pre) < n" if sp: "CHR '' '' \<in> set ?w"
  proof -
    from split_last_space [OF sp] obtain suf where
      suf: "?w = before_last_space ?w @ CHR '' '' # suf" by blast
    have "render_chunk_text n src = before_last_space ?w @ truncation_marker"
      using assms sp by (simp add: render_chunk_text_def Let_def slice_to_def min_def)
    with p(1) have "pre = before_last_space ?w" by simp
    with suf have "length ?w = length pre + 1 + length suf"
      by (metis length_append length_Cons Suc_eq_plus1 add.assoc add.commute)
    with lw show ?thesis by linarith
  qed
  with p show ?thesis by blast
qed

text \<open>
  C7, as the code has it. A budget of 0 switches truncation off: the chunk text is rendered
  whole. Chunk text within the budget is rendered unchanged. For a positive budget, longer
  chunk text is rendered as a prefix of itself followed by the truncation marker; the
  prefix is at most the budget long, and when there is a space among the first \<open>budget\<close>
  characters it ends just before the last of them: it is shorter than the budget, the
  character after it is a space, and no space follows up to the budget. The rendered text
  is at most the budget plus the length of the marker long. The assembled context
  contains the rendered text of every hit, hence the marker for every hit with longer
  text.
\<close>

theorem long_chunk_text_truncated_and_marked:
  "render_chunk_text 0 src = source_chunk_text src
   \<and> (int (length (source_chunk_text src)) \<le> budget \<longrightarrow>
        render_chunk_text budget src = source_chunk_text src)
   \<and> (0 < budget \<and> int (length (source_chunk_text src)) > budget \<longrightarrow>
        (\<exists>pre. render_chunk_text budget src = pre @ truncation_marker
           \<and> prefix pre (source_chunk_text src)
           \<and> int (length pre) \<le> budget
           \<and> (CHR '' '' \<in> set (take (nat budget) (source_chunk_text src)) \<longrightarrow>
                int (length pre) < budget
                \<and> source_chunk_text src ! length pre = CHR '' ''
                \<and> CHR '' '' \<notin> set (drop (Suc (length pre))
                                       (take (nat budget) (source_chunk_text src)))))
        \<and> int (length (render_chunk_text budget src))
             \<le> budget + int (length truncation_marker))
   \<and> (\<forall>h out. h \<in> set hits \<and> build_context budget hits = Inr out \<longrightarrow>
        sublist (render_chunk_text budget (hit_source h)) out
        \<and> (0 < budget \<and> int (length (source_chunk_text (hit_source h))) > budget \<longrightarrow>
             sublist truncation_marker out))"
proof (intro conjI impI allI)
  show "render_chunk_text 0 src = source_chunk_text src" by (rule render_zero_budget)
next
  assume "int (length (source_chunk_text src)) \<le> budget"
  then show "render_chunk_text budget src = source_chunk_text src"
    by (simp add: render_chunk_text_def)
next
  assume a: "0 < budget \<and> budget < int (length (source_chunk_text src))"
  then have pos: "0 < budget" and long: "budget < int (length (source_chunk_text src))" by simp_all
  from render_long_chunk_text_cut [OF pos long]
  show "\<exists>pre. render_chunk_text budget src = pre @ truncation_marker
           \<and> prefix pre (source_chunk_text src)
           \<and> int (length pre) \<le> budget
           \<and> (CHR '' '' \<in> set (take (nat budget) (source_chunk_text src)) \<longrightarrow>
                int (length pre) < budget
                \<and> source_chunk_text src ! length pre = CHR '' ''
                \<and> CHR '' '' \<notin> set (drop (Suc (length pre))
                                       (take (nat budget) (source_chunk_text src))))" .
  from render_long_chunk_text_cut [OF pos long]
  obtain pre where "render_chunk_text budget src = pre @ truncation_marker"
    and "int (length pre) \<le> budget" by blast
  then show "int (length (render_chunk_text budget src)) \<le> budget + int (length truncation_marker)"
    by simp
next
  fix h :: "'a hit" and out
  assume a: "h \<in> set hits \<and> build_context budget hits = Inr out"
  then show "sublist (render_chunk_text budget (hit_source h)) out"
    using build_context_contains_chunk_text by blast
next
  fix h :: "'a hit" and out
  assume a: "h \<in> set hits \<and> build_context budget hits = Inr out"
    and b: "0 < budget \<and> budget < int (length (source_chunk_text (hit_source h)))"
  from b have pos: "0 < budget" and long: "budget < int (length (source_chunk_text (hit_source h)))"
    by simp_all
  from render_long_chunk_text_cut [OF pos long]
  obtain pre where "render_chunk_text budget (hit_source h) = pre @ truncation_marker" by blast
  then have "sublist truncation_marker (render_chunk_text budget (hit_source h))" by simp
  moreover have "sublist (render_chunk_text budget (hit_source h)) out"
    using a build_context_contains_chunk_text by blast
  ultimately show "sublist truncation_marker out" by (rule sublist_order.order_trans)
qed

theorem long_chunk_text_truncated_and_marked_witness:
  "(0::int) < 10
   \<and> int (length (source_chunk_text demo_source)) > 10
   \<and> CHR '' '' \<in> set (take (nat 10) (source_chunk_text demo_source))
   \<and> render_chunk_text 10 demo_source = ''hello big... [truncated]''
   \<and> int (length (render_chunk_text 10 demo_source)) \<le> 10 + int (length truncation_marker)
   \<and> hd demo_context_hits \<in> set demo_context_hits
   \<and> (\<exists>out. build_context 10 demo_context_hits = Inr out \<and> sublist truncation_marker out)"
proof -
  have pos: "(0::int) < 10" by simp
  have long: "int (length (source_chunk_text demo_source)) > 10"
    by (simp add: demo_source_def source_chunk_text_def)
  have sp: "CHR '' '' \<in> set (take (nat 10) (source_chunk_text demo_source))"
    by (simp add: demo_source_def source_chunk_text_def)
  have r: "render_chunk_text 10 demo_source = ''hello big... [truncated]''"
    by (simp add: demo_source_def source_chunk_text_def render_chunk_text_def slice_to_def
        before_last_space_def truncation_marker_def)
  have b: "build_context 10 demo_context_hits
     = Inr (''EPISODE: T\<newline>PODCAST: P - Host: H\<newline>DATE: D\<newline>URL: U\<newline>TRANSCRIPT:\<newline>''
            @ ''hello big... [truncated]\<newline>---'')"
    using r by (simp add: build_context_def render_hit_def seq_def demo_context_hits_def
        subscript_def truthy_def record_header_def demo_source_def)
  have m: "hd demo_context_hits \<in> set demo_context_hits" "hit_source (hd demo_context_hits) = demo_source"
    by (simp_all add: demo_context_hits_def)
  note t = long_chunk_text_truncated_and_marked [of demo_source 10 demo_context_hits]
  from t pos long have "int (length (render_chunk_text 10 demo_source)) \<le> 10 + int (length truncation_marker)"
    by blast
  moreover from t m b pos long have "sublist truncation_marker
     (''EPISODE: T\<newline>PODCAST: P - Host: H\<newline>DATE: D\<newline>URL: U\<newline>TRANSCRIPT:\<newline>''
            @ ''hello big... [truncated]\<newline>---'')"
    by metis
  ultimately show ?thesis using pos long sp r b m(1) by simp
qed

text \<open>
  C7 as claimed fails in two places. A budget of 0 switches truncation off, so text longer
  than the budget is rendered whole and without the marker; and text with no space in
  its first \<open>budget\<close> characters is cut inside a word.
\<close>

theorem truncation_disabled_or_mid_word:
  "render_chunk_text 0 [(''chunk_text'', JStr ''a b'')] = ''a b''
   \<and> render_chunk_text 3 [(''chunk_text'', JStr ''abcdef'')] = ''abc... [truncated]''"
  by (simp add: source_chunk_text_def render_chunk_text_def slice_to_def truncation_marker_def)

text \<open>
  The second of these is what the code does whenever the first \<open>budget\<close> characters hold
  no space, where its comment says \<^verbatim>\<open>Truncate at a word boundary\<close>.
\<close>

lemma cut_without_space:
  assumes "0 < n" and "int (length (source_chunk_text src)) > n"
    and "CHR '' '' \<notin> set (take (nat n) (source_chunk_text src))"
  shows "render_chunk_text n src = take (nat n) (source_chunk_text src) @ truncation_marker"
  using assms by (simp add: render_chunk_text_def Let_def slice_to_def min_def)

section \<open>Properties of the generation router\<close>

lemmas gen_defs = generate_answer_def select_model_def select_bigger_def select_preferred_def
  select_primary_def select_fallback_def override_settings_def get_primary_model_def
  get_fallback_model_def get_bigger_model_def load_named_def load_model_def get_model_path_def
  get_model_type_from_string_def env_int_def env_float_def unset_def value_or_runtime_def
  initial_selection_def chosen_def seq_def run_generation_def call_model_def retry_reduced_def
  try_fallback_def first_text_def overflow_message_def low_token_indicators_def
  after_reducing_def lower_def to_lower_def is_upper_def code_def initial_state_def base_env_def
  strip_def is_space_def

text \<open>
  C1. Claimed: \<^verbatim>\<open>generate_answer\<close> never lets an exception reach its caller, whatever the
  configuration, unknown model identifiers included. The code with \<^verbatim>\<open>PRIMARY_MODEL\<close> set
  to the unknown identifier \<open>gpt4\<close> and a fallback model that loads: \<^verbatim>\<open>_get_primary_model\<close>
  absorbs the \<^verbatim>\<open>ValueError\<close> and returns the fallback model, then the next statement
  converts \<^verbatim>\<open>PRIMARY_MODEL\<close> again, outside that function and under a handler for
  \<^verbatim>\<open>RuntimeError\<close> only, and the \<^verbatim>\<open>ValueError\<close> leaves \<^verbatim>\<open>generate_answer\<close>.
\<close>

theorem unknown_primary_identifier_raises:
  "fst (generate_answer (base_env\<lparr>PRIMARY_MODEL := ''gpt4''\<rparr>) ''hi'' None False initial_state)
     = Inl (Exn ValueError ''Unknown model type: gpt4'')"
  by (simp add: gen_defs)

text \<open>With no model runtime installed the call returns, and the text says so.\<close>

lemma no_backend_text:
  "fst (generate_answer (base_env\<lparr>llama_installed := False\<rparr>) ''hi'' None False initial_state)
     = Inr (''Error: No models available. Failed to load fallback model (tinyllama): ''
        @ ''`llama-cpp-python` is required. Install it with: `pip install llama-cpp-python`.''
        @ ''. Please configure at least one model path.'')"
  by (simp add: gen_defs)

text \<open>Every step of the router only adds to the trace.\<close>

lemma load_model_trace: "load_model e mt s = (r, s') \<Longrightarrow> trace s' = trace s @ [Load mt]"
  by (auto simp: load_model_def Let_def split: option.splits sum.splits if_splits)

lemma load_named_grows: "load_named e n s = (r, s') \<Longrightarrow> prefix (trace s) (trace s')"
  by (auto simp: load_named_def split: sum.splits dest: load_model_trace)

lemma get_fallback_model_grows:
  "get_fallback_model e s = (r, s') \<Longrightarrow> prefix (trace s) (trace s')"
  by (auto simp: get_fallback_model_def split: prod.splits sum.splits if_splits
      dest: load_named_grows)

lemma get_primary_model_grows:
  "get_primary_model e s = (r, s') \<Longrightarrow> prefix (trace s) (trace s')"
  by (auto simp: get_primary_model_def split: prod.splits sum.splits if_splits
      dest!: load_named_grows get_fallback_model_grows)

lemma select_preferred_grows:
  "select_preferred e pref sel s = (r, s') \<Longrightarrow> prefix (trace s) (trace s')"
  by (auto simp: select_preferred_def split: option.splits prod.splits sum.splits if_splits
      dest: load_named_grows)

lemma select_primary_grows:
  "select_primary e sel s = (r, s') \<Longrightarrow> prefix (trace s) (trace s')"
  by (auto simp: select_primary_def split: prod.splits sum.splits if_splits
      dest: get_primary_model_grows)

lemma select_fallback_grows:
  "select_fallback e sel s = (r, s') \<Longrightarrow> prefix (trace s) (trace s')"
  by (auto simp: select_fallback_def split: option.splits prod.splits sum.splits if_splits
      dest: get_fallback_model_grows)

lemma call_model_trace:
  "call_model e m p mt t s = (r, s') \<Longrightarrow> trace s' = trace s @ [Call m p mt t]"
  by (auto simp: call_model_def)

lemma try_fallback_grows:
  "try_fallback e p e2 s = (r, s') \<Longrightarrow> prefix (trace s) (trace s')"
  by (auto simp: try_fallback_def split: prod.splits sum.splits if_splits
      dest!: get_fallback_model_grows call_model_trace)

lemma retry_reduced_grows:
  "retry_reduced e sel p s = (r, s') \<Longrightarrow> prefix (trace s) (trace s')"
  by (auto simp: retry_reduced_def Let_def split: prod.splits sum.splits if_splits
      dest!: try_fallback_grows call_model_trace dest: append_prefixD)

lemma run_generation_grows:
  "run_generation e sel p s = (r, s') \<Longrightarrow> prefix (trace s) (trace s')"
  by (auto simp: run_generation_def split: prod.splits sum.splits if_splits
      dest!: retry_reduced_grows call_model_trace dest: append_prefixD)

lemma select_model_grows_from:
  assumes "select_bigger e p ub s = (r1, s1)"
    and "select_model e p pref ub s = (r, s')"
  shows "prefix (trace s1) (trace s')"
proof (cases r1)
  case (Inl x)
  with assms show ?thesis by (simp add: select_model_def)
next
  case (Inr sel1)
  obtain r2 s2 where p2: "select_preferred e pref sel1 s1 = (r2, s2)" by (cases "select_preferred e pref sel1 s1")
  have g2: "prefix (trace s1) (trace s2)" using p2 by (rule select_preferred_grows)
  show ?thesis
  proof (cases r2)
    case (Inl x)
    with assms Inr p2 g2 show ?thesis by (simp add: select_model_def)
  next
    case sel2: (Inr sel2)
    obtain r3 s3 where p3: "select_primary e sel2 s2 = (r3, s3)" by (cases "select_primary e sel2 s2")
    have g3: "prefix (trace s1) (trace s3)"
      using g2 select_primary_grows [OF p3] by (rule prefix_order.trans)
    show ?thesis
    proof (cases r3)
      case (Inl x)
      with assms Inr p2 sel2 p3 g3 show ?thesis by (simp add: select_model_def)
    next
      case sel3: (Inr sel3)
      obtain r4 s4 where p4: "select_fallback e sel3 s3 = (r4, s4)" by (cases "select_fallback e sel3 s3")
      have g4: "prefix (trace s1) (trace s4)"
        using g3 select_fallback_grows [OF p4] by (rule prefix_order.trans)
      have "s' = s4"
        using assms Inr p2 sel2 p3 sel3 p4
        by (auto simp: select_model_def split: sum.splits)
      with g4 show ?thesis by simp
    qed
  qed
qed

lemma generate_answer_grows_from:
  assumes "select_bigger e p ub s = (r1, s1)"
    and "generate_answer e p pref ub s = (r, s')"
  shows "prefix (trace s1) (trace s')"
proof -
  obtain rs ss where sm: "select_model e p pref ub s = (rs, ss)" by (cases "select_model e p pref ub s")
  have g: "prefix (trace s1) (trace ss)" using assms(1) sm by (rule select_model_grows_from)
  show ?thesis
  proof (cases rs)
    case (Inl x)
    with assms(2) sm g show ?thesis by (simp add: generate_answer_def)
  next
    case (Inr y)
    show ?thesis
    proof (cases y)
      case (Inl early)
      with assms(2) sm g Inr show ?thesis by (simp add: generate_answer_def)
    next
      case sel: (Inr sel)
      obtain out s2 where rg: "run_generation e sel p ss = (out, s2)" by (cases "run_generation e sel p ss")
      have "prefix (trace ss) (trace s2)" using rg by (rule run_generation_grows)
      with g have "prefix (trace s1) (trace s2)" by (rule prefix_order.trans)
      with assms(2) sm Inr sel rg show ?thesis by (simp add: generate_answer_def)
    qed
  qed
qed

text \<open>
  C5, as the code has it. When \<^verbatim>\<open>use_bigger_for_long_context\<close> is true, the prompt is
  longer than 4000 characters and the constant \<^verbatim>\<open>USE_BIGGER_MODEL\<close> is true, the first
  thing \<^verbatim>\<open>generate_answer\<close> does to a backend is to load the bigger model, before any
  preferred, primary or fallback backend is touched.
\<close>

theorem bigger_backend_attempted_first_when_enabled:
  assumes "use_bigger_for_long_context" and "length prompt > 4000" and "USE_BIGGER_MODEL e"
  shows "\<exists>rest. trace (snd (generate_answer e prompt model_preference
                  use_bigger_for_long_context s)) = trace s @ Load LLAMA3_8B # rest"
proof -
  obtain r1 s1 where sb: "select_bigger e prompt use_bigger_for_long_context s = (r1, s1)"
    by (cases "select_bigger e prompt use_bigger_for_long_context s")
  obtain rl sl where l: "load_model e LLAMA3_8B s = (rl, sl)" by (cases "load_model e LLAMA3_8B s")
  have "s1 = sl"
    using assms sb l
    by (auto simp: select_bigger_def get_bigger_model_def split: sum.splits option.splits if_splits)
  with load_model_trace [OF l] have t1: "trace s1 = trace s @ [Load LLAMA3_8B]" by simp
  obtain r s' where ga: "generate_answer e prompt model_preference use_bigger_for_long_context s = (r, s')"
    by (cases "generate_answer e prompt model_preference use_bigger_for_long_context s")
  from generate_answer_grows_from [OF sb ga] t1
  obtain rest where "trace s' = trace s @ [Load LLAMA3_8B] @ rest"
    by (auto simp: prefix_def)
  with ga show ?thesis by simp
qed

theorem bigger_backend_attempted_first_when_enabled_witness:
  "True \<and> length (replicate 4001 CHR ''x'') > 4000
   \<and> USE_BIGGER_MODEL (base_env\<lparr>USE_BIGGER_MODEL := True\<rparr>)
   \<and> (\<exists>rest. trace (snd (generate_answer (base_env\<lparr>USE_BIGGER_MODEL := True\<rparr>)
                   (replicate 4001 CHR ''x'') None True initial_state))
          = trace initial_state @ Load LLAMA3_8B # rest)"
  using bigger_backend_attempted_first_when_enabled
    [of True "replicate 4001 CHR ''x''" "base_env\<lparr>USE_BIGGER_MODEL := True\<rparr>" None initial_state]
  by simp

text \<open>
  C5 as claimed fails at the default of \<^verbatim>\<open>USE_BIGGER_MODEL\<close>, false. In the process
  below, with all three models configured and Phi-3 as primary, a prompt of 4001
  characters and \<^verbatim>\<open>use_bigger_for_long_context\<close> true, the first backend touched is the
  primary model, which is loaded and called; the bigger model is not attempted.
\<close>

theorem bigger_backend_skipped_when_disabled:
  "trace (snd (generate_answer base_env (replicate 4001 CHR ''x'') None True initial_state))
     = [Load PHI3_MINI, Call 1 (replicate 4001 CHR ''x'') 500 0.2]"
  by (simp add: gen_defs)

text \<open>With the switch off, the long-context step selects nothing and loads nothing.\<close>

lemma long_context_step_switched_off:
  "\<not> USE_BIGGER_MODEL e \<Longrightarrow>
     select_bigger e prompt use_bigger_for_long_context s = (Inr initial_selection, s)"
  by (simp add: select_bigger_def get_bigger_model_def)

lemma load_named_loads:
  "load_named e n s = (r, s') \<Longrightarrow> filter is_call (drop (length (trace s)) (trace s')) = [] \<and> prefix (trace s) (trace s')"
  by (auto simp: load_named_def split: sum.splits dest: load_model_trace)

lemma get_fallback_model_loads:
  "get_fallback_model e s = (r, s') \<Longrightarrow> \<exists>ls. trace s' = trace s @ ls \<and> filter is_call ls = []"
proof -
  assume a: "get_fallback_model e s = (r, s')"
  obtain r0 s0 where l: "load_named e (FALLBACK_MODEL e) s = (r0, s0)"
    by (cases "load_named e (FALLBACK_MODEL e) s")
  with a have "s' = s0"
    by (auto simp: get_fallback_model_def split: sum.splits if_splits)
  with load_named_loads [OF l] show ?thesis
    by (auto simp: prefix_def)
qed

text \<open>
  What the handlers of the first call run, step by step, when that call raises an
  exception other than a \<^verbatim>\<open>RuntimeError\<close> with an overflow indicator in its text: the calls
  made after the selection and the text returned, for each outcome of the retry and of
  the load of the fallback model.
\<close>

lemma overflow_handler_runs:
  assumes sel: "select_model e prompt model_preference use_bigger s0
                  = (Inr (Inr (m, model_name, max_tokens, temperature)), s1)"
    and first: "complete e (trace s1) m prompt max_tokens temperature = Inl err"
    and nrt: "kind err \<noteq> RuntimeError"
    and ovf: "overflow_message (str err)"
  shows "\<exists>out s'. generate_answer e prompt model_preference use_bigger s0 = (Inr out, s') \<and>
     (let c1 = Call m prompt max_tokens temperature;
          c2 = Call m prompt (min 256 max_tokens) temperature;
          s2 = s1\<lparr>trace := trace s1 @ [c1, c2]\<rparr>
      in case complete e (trace s1 @ [c1]) m prompt (min 256 max_tokens) temperature of
           Inr parts \<Rightarrow>
             calls_after s1 s' = [c1, c2]
             \<and> (parts \<noteq> [] \<longrightarrow> out = first_text parts @ reduced_note model_name)
         | Inl e2 \<Rightarrow>
             if model_name = description TINYLLAMA
             then calls_after s1 s' = [c1, c2] \<and> out = after_reducing e2
             else (case get_fallback_model e s2 of
                     (Inl x, s3) \<Rightarrow> calls_after s1 s' = [c1, c2] \<and> out = after_reducing e2
                   | (Inr fallback_model, s3) \<Rightarrow>
                       calls_after s1 s'
                         = [c1, c2, Call fallback_model prompt (default_max_tokens TINYLLAMA)
                                      (default_temperature TINYLLAMA)]
                       \<and> (\<forall>parts. complete e (trace s3) fallback_model prompt
                                     (default_max_tokens TINYLLAMA)
                                     (default_temperature TINYLLAMA) = Inr parts
                                   \<and> parts \<noteq> [] \<longrightarrow>
                              out = first_text parts @ fallback_note)))"
proof -
  let ?c1 = "Call m prompt max_tokens temperature"
  let ?c2 = "Call m prompt (min 256 max_tokens) temperature"
  let ?sa = "s1\<lparr>trace := trace s1 @ [?c1]\<rparr>"
  let ?s2 = "s1\<lparr>trace := trace s1 @ [?c1, ?c2]\<rparr>"
  let ?r2 = "complete e (trace s1 @ [?c1]) m prompt (min 256 max_tokens) temperature"
  have run: "run_generation e (m, model_name, max_tokens, temperature) prompt s1
               = retry_reduced e (m, model_name, max_tokens, temperature) prompt ?sa"
    using first nrt ovf by (simp add: run_generation_def call_model_def)
  have ga: "generate_answer e prompt model_preference use_bigger s0
     = (case retry_reduced e (m, model_name, max_tokens, temperature) prompt ?sa of (out, s2) \<Rightarrow> (Inr out, s2))"
    using sel run by (simp add: generate_answer_def)
  show ?thesis
  proof (cases ?r2)
    case (Inr parts)
    then have "retry_reduced e (m, model_name, max_tokens, temperature) prompt ?sa
       = (if parts = [] then model_name @ '' returned no output after retrying with smaller token limit.''
          else first_text parts @ reduced_note model_name, ?s2)"
      by (simp add: retry_reduced_def call_model_def Let_def)
    with ga Inr show ?thesis
      by (simp add: calls_after_def Let_def)
  next
    case (Inl e2)
    show ?thesis
    proof (cases "model_name = description TINYLLAMA")
      case True
      with Inl have "retry_reduced e (m, model_name, max_tokens, temperature) prompt ?sa
         = (after_reducing e2, ?s2)"
        by (simp add: retry_reduced_def call_model_def Let_def)
      with ga Inl True show ?thesis
        by (simp add: calls_after_def Let_def)
    next
      case False
      with Inl have rr: "retry_reduced e (m, model_name, max_tokens, temperature) prompt ?sa
         = try_fallback e prompt e2 ?s2"
        by (simp add: retry_reduced_def call_model_def Let_def)
      obtain rf s3 where gf: "get_fallback_model e ?s2 = (rf, s3)"
        by (cases "get_fallback_model e ?s2")
      from get_fallback_model_loads [OF gf] obtain ls where
        ls: "trace s3 = trace s1 @ [?c1, ?c2] @ ls" "filter is_call ls = []" by auto
      show ?thesis
      proof (cases rf)
        case x: (Inl x)
        with gf have "try_fallback e prompt e2 ?s2 = (after_reducing e2, s3)"
          by (simp add: try_fallback_def)
        with ga rr Inl False gf x ls show ?thesis
          by (simp add: calls_after_def Let_def)
      next
        case fm: (Inr fm)
        let ?c3 = "Call fm prompt (default_max_tokens TINYLLAMA) (default_temperature TINYLLAMA)"
        let ?r3 = "complete e (trace s3) fm prompt (default_max_tokens TINYLLAMA) (default_temperature TINYLLAMA)"
        have tf: "try_fallback e prompt e2 ?s2
          = (case ?r3 of Inl x \<Rightarrow> after_reducing e2
             | Inr parts \<Rightarrow> if parts \<noteq> [] then first_text parts @ fallback_note else after_reducing e2,
             s3\<lparr>trace := trace s3 @ [?c3]\<rparr>)"
          using gf fm by (simp add: try_fallback_def call_model_def split: sum.splits)
        with ga rr Inl False gf fm ls show ?thesis
          by (auto simp: calls_after_def Let_def)
      qed
    qed
  qed
qed

text \<open>A \<^verbatim>\<open>RuntimeError\<close> from the first call is reported at once: one call, no retry.\<close>

lemma runtime_error_not_retried:
  assumes sel: "select_model e prompt model_preference use_bigger s0
                  = (Inr (Inr (m, model_name, max_tokens, temperature)), s1)"
    and first: "complete e (trace s1) m prompt max_tokens temperature = Inl err"
    and rt: "kind err = RuntimeError"
  shows "generate_answer e prompt model_preference use_bigger s0
           = (Inr (''Error with '' @ model_name @ '': '' @ str err),
              s1\<lparr>trace := trace s1 @ [Call m prompt max_tokens temperature]\<rparr>)"
  using assms by (simp add: generate_answer_def run_generation_def call_model_def)

text \<open>
  C2, as the code has it. When the first call of the selected model raises a
  \<^verbatim>\<open>RuntimeError\<close>, whatever its text, no retry is made and the error is returned as
  text. When it raises any other exception whose text contains an overflow indicator,
  the call is retried once, on the same model, with \<open>min 256 max_tokens\<close> tokens and the same
  temperature. If the retry returns, no further call is made, and a non-empty answer is
  returned with the note on the reduced limit appended. If the retry raises, at most one
  further call is made, and it is made on the model that \<^verbatim>\<open>_get_fallback_model\<close> returns;
  a non-empty answer of that call is returned with the note on the fallback model
  appended.
\<close>

theorem overflow_retry_then_fallback:
  assumes sel: "select_model e prompt model_preference use_bigger s0
                  = (Inr (Inr (m, model_name, max_tokens, temperature)), s1)"
    and first: "complete e (trace s1) m prompt max_tokens temperature = Inl err"
  shows "(kind err = RuntimeError \<longrightarrow>
            generate_answer e prompt model_preference use_bigger s0
              = (Inr (''Error with '' @ model_name @ '': '' @ str err),
                 s1\<lparr>trace := trace s1 @ [Call m prompt max_tokens temperature]\<rparr>))
       \<and> (kind err \<noteq> RuntimeError \<and> overflow_message (str err) \<longrightarrow>
            (\<exists>out s'. generate_answer e prompt model_preference use_bigger s0 = (Inr out, s') \<and>
               (let c1 = Call m prompt max_tokens temperature;
                    c2 = Call m prompt (min 256 max_tokens) temperature;
                    s2 = s1\<lparr>trace := trace s1 @ [c1, c2]\<rparr>
                in case complete e (trace s1 @ [c1]) m prompt (min 256 max_tokens) temperature of
                     Inr parts \<Rightarrow>
                       calls_after s1 s' = [c1, c2]
                       \<and> (parts \<noteq> [] \<longrightarrow> out = first_text parts @ reduced_note model_name)
                   | Inl e2 \<Rightarrow>
                       calls_after s1 s' = [c1, c2]
                       \<or> (\<exists>fallback_model s3 tokens temp.
                            get_fallback_model e s2 = (Inr fallback_model, s3)
                            \<and> calls_after s1 s' = [c1, c2, Call fallback_model prompt tokens temp]
                            \<and> (\<forall>parts. complete e (trace s3) fallback_model prompt tokens temp
                                          = Inr parts \<and> parts \<noteq> [] \<longrightarrow>
                                   out = first_text parts @ fallback_note)))))"
proof (intro conjI impI)
  assume "kind err = RuntimeError"
  with sel first show "generate_answer e prompt model_preference use_bigger s0
              = (Inr (''Error with '' @ model_name @ '': '' @ str err),
                 s1\<lparr>trace := trace s1 @ [Call m prompt max_tokens temperature]\<rparr>)"
    by (rule runtime_error_not_retried)
next
  assume a: "kind err \<noteq> RuntimeError \<and> overflow_message (str err)"
  then have nrt: "kind err \<noteq> RuntimeError" and ovf: "overflow_message (str err)" by simp_all
  let ?c1 = "Call m prompt max_tokens temperature"
  let ?c2 = "Call m prompt (min 256 max_tokens) temperature"
  let ?s2 = "s1\<lparr>trace := trace s1 @ [?c1, ?c2]\<rparr>"
  from overflow_handler_runs [OF sel first nrt ovf] obtain out s' where
    ga: "generate_answer e prompt model_preference use_bigger s0 = (Inr out, s')"
    and full: "case complete e (trace s1 @ [?c1]) m prompt (min 256 max_tokens) temperature of
           Inr parts \<Rightarrow>
             calls_after s1 s' = [?c1, ?c2]
             \<and> (parts \<noteq> [] \<longrightarrow> out = first_text parts @ reduced_note model_name)
         | Inl e2 \<Rightarrow>
             if model_name = description TINYLLAMA
             then calls_after s1 s' = [?c1, ?c2] \<and> out = after_reducing e2
             else (case get_fallback_model e ?s2 of
                     (Inl x, s3) \<Rightarrow> calls_after s1 s' = [?c1, ?c2] \<and> out = after_reducing e2
                   | (Inr fallback_model, s3) \<Rightarrow>
                       calls_after s1 s'
                         = [?c1, ?c2, Call fallback_model prompt (default_max_tokens TINYLLAMA)
                                      (default_temperature TINYLLAMA)]
                       \<and> (\<forall>parts. complete e (trace s3) fallback_model prompt
                                     (default_max_tokens TINYLLAMA)
                                     (default_temperature TINYLLAMA) = Inr parts
                                   \<and> parts \<noteq> [] \<longrightarrow>
                              out = first_text parts @ fallback_note))"
    by (auto simp: Let_def)
  have "case complete e (trace s1 @ [?c1]) m prompt (min 256 max_tokens) temperature of
           Inr parts \<Rightarrow>
             calls_after s1 s' = [?c1, ?c2]
             \<and> (parts \<noteq> [] \<longrightarrow> out = first_text parts @ reduced_note model_name)
         | Inl e2 \<Rightarrow>
             calls_after s1 s' = [?c1, ?c2]
             \<or> (\<exists>fallback_model s3 tokens temp.
                  get_fallback_model e ?s2 = (Inr fallback_model, s3)
                  \<and> calls_after s1 s' = [?c1, ?c2, Call fallback_model prompt tokens temp]
                  \<and> (\<forall>parts. complete e (trace s3) fallback_model prompt tokens temp
                                = Inr parts \<and> parts \<noteq> [] \<longrightarrow>
                         out = first_text parts @ fallback_note))"
  proof (cases "complete e (trace s1 @ [?c1]) m prompt (min 256 max_tokens) temperature")
    case (Inr parts)
    with full show ?thesis by simp
  next
    case (Inl e2)
    show ?thesis
    proof (cases "model_name = description TINYLLAMA")
      case True
      with full Inl show ?thesis by simp
    next
      case False
      obtain rf s3 where gf: "get_fallback_model e ?s2 = (rf, s3)"
        by (cases "get_fallback_model e ?s2")
      show ?thesis
      proof (cases rf)
        case x: (Inl x)
        with full Inl False gf show ?thesis by simp
      next
        case fm: (Inr fm)
        with full Inl False gf have
          "calls_after s1 s' = [?c1, ?c2, Call fm prompt (default_max_tokens TINYLLAMA)
                                      (default_temperature TINYLLAMA)]
           \<and> (\<forall>parts. complete e (trace s3) fm prompt (default_max_tokens TINYLLAMA)
                         (default_temperature TINYLLAMA) = Inr parts \<and> parts \<noteq> [] \<longrightarrow>
                  out = first_text parts @ fallback_note)"
          by simp
        with gf fm have "\<exists>fallback_model s3 tokens temp.
                  get_fallback_model e ?s2 = (Inr fallback_model, s3)
                  \<and> calls_after s1 s' = [?c1, ?c2, Call fallback_model prompt tokens temp]
                  \<and> (\<forall>parts. complete e (trace s3) fallback_model prompt tokens temp
                                = Inr parts \<and> parts \<noteq> [] \<longrightarrow>
                         out = first_text parts @ fallback_note)"
          by blast
        with Inl show ?thesis by simp
      qed
    qed
  qed
  with ga show "\<exists>out s'. generate_answer e prompt model_preference use_bigger s0 = (Inr out, s') \<and>
               (let c1 = Call m prompt max_tokens temperature;
                    c2 = Call m prompt (min 256 max_tokens) temperature;
                    s2 = s1\<lparr>trace := trace s1 @ [c1, c2]\<rparr>
                in case complete e (trace s1 @ [c1]) m prompt (min 256 max_tokens) temperature of
                     Inr parts \<Rightarrow>
                       calls_after s1 s' = [c1, c2]
                       \<and> (parts \<noteq> [] \<longrightarrow> out = first_text parts @ reduced_note model_name)
                   | Inl e2 \<Rightarrow>
                       calls_after s1 s' = [c1, c2]
                       \<or> (\<exists>fallback_model s3 tokens temp.
                            get_fallback_model e s2 = (Inr fallback_model, s3)
                            \<and> calls_after s1 s' = [c1, c2, Call fallback_model prompt tokens temp]
                            \<and> (\<forall>parts. complete e (trace s3) fallback_model prompt tokens temp
                                          = Inr parts \<and> parts \<noteq> [] \<longrightarrow>
                                   out = first_text parts @ fallback_note)))"
    by (auto simp: Let_def)
qed

theorem overflow_retry_then_fallback_witness:
  "select_model runtime_error_env ''hi'' None False initial_state
     = (Inr (Inr (1, description PHI3_MINI, 500, 0.2)), primary_loaded)
   \<and> complete runtime_error_env (trace primary_loaded) 1 ''hi'' 500 0.2
       = Inl (Exn RuntimeError ''Requested tokens (900) exceed context window of 512'')
   \<and> kind (Exn RuntimeError ''Requested tokens (900) exceed context window of 512'') = RuntimeError
   \<and> generate_answer runtime_error_env ''hi'' None False initial_state
       = (Inr (''Error with Phi-3 Mini (Main LLM): ''
               @ ''Requested tokens (900) exceed context window of 512''),
          primary_loaded\<lparr>trace := [Load PHI3_MINI, Call 1 ''hi'' 500 0.2]\<rparr>)
   \<and> select_model overflowing_primary_env ''hi'' None False initial_state
       = (Inr (Inr (1, description PHI3_MINI, 500, 0.2)), primary_loaded)
   \<and> complete overflowing_primary_env (trace primary_loaded) 1 ''hi'' 500 0.2 = Inl overflow_error
   \<and> kind overflow_error \<noteq> RuntimeError
   \<and> overflow_message (str overflow_error)
   \<and> (\<exists>out s'. generate_answer overflowing_primary_env ''hi'' None False initial_state = (Inr out, s')
        \<and> calls_after primary_loaded s'
             = [Call 1 ''hi'' 500 0.2, Call 1 ''hi'' 256 0.2, Call 2 ''hi'' 250 0.2]
        \<and> out = ''tiny answer'' @ fallback_note)"
proof -
  let ?rte = "Exn RuntimeError ''Requested tokens (900) exceed context window of 512''"
  have a1: "select_model runtime_error_env ''hi'' None False initial_state
     = (Inr (Inr (1, description PHI3_MINI, 500, 0.2)), primary_loaded)"
    by (simp add: gen_defs runtime_error_env_def primary_loaded_def)
  have a2: "complete runtime_error_env (trace primary_loaded) 1 ''hi'' 500 0.2 = Inl ?rte"
    by (simp add: runtime_error_env_def)
  have a3: "kind ?rte = RuntimeError" by simp
  from overflow_retry_then_fallback [OF a1 a2] a3
  have a: "generate_answer runtime_error_env ''hi'' None False initial_state
       = (Inr (''Error with Phi-3 Mini (Main LLM): ''
               @ ''Requested tokens (900) exceed context window of 512''),
          primary_loaded\<lparr>trace := [Load PHI3_MINI, Call 1 ''hi'' 500 0.2]\<rparr>)"
    by (simp add: primary_loaded_def)
  have h1: "select_model overflowing_primary_env ''hi'' None False initial_state
     = (Inr (Inr (1, description PHI3_MINI, 500, 0.2)), primary_loaded)"
    by (simp add: gen_defs overflowing_primary_env_def primary_loaded_def)
  have h2: "complete overflowing_primary_env (trace primary_loaded) 1 ''hi'' 500 0.2 = Inl overflow_error"
    by (simp add: overflowing_primary_env_def)
  have h3: "kind overflow_error \<noteq> RuntimeError" by (simp add: overflow_error_def)
  have h4: "overflow_message (str overflow_error)"
    by (simp add: overflow_error_def overflow_message_def low_token_indicators_def)
  have run: "generate_answer overflowing_primary_env ''hi'' None False initial_state
     = (Inr (''tiny answer'' @ fallback_note),
        \<lparr>loaded = (\<lambda>_. None)(PHI3_MINI \<mapsto> 1, TINYLLAMA \<mapsto> 2),
         trace = [Load PHI3_MINI, Call 1 ''hi'' 500 0.2, Call 1 ''hi'' 256 0.2, Load TINYLLAMA,
                  Call 2 ''hi'' 250 0.2]\<rparr>)"
    by (simp add: gen_defs overflowing_primary_env_def overflow_error_def)
  from overflow_retry_then_fallback [OF h1 h2] h3 h4
  obtain out s' where
    ga: "generate_answer overflowing_primary_env ''hi'' None False initial_state = (Inr out, s')"
    by blast
  with run have "calls_after primary_loaded s'
             = [Call 1 ''hi'' 500 0.2, Call 1 ''hi'' 256 0.2, Call 2 ''hi'' 250 0.2]
        \<and> out = ''tiny answer'' @ fallback_note"
    by (auto simp: calls_after_def primary_loaded_def)
  with ga a1 a2 a3 a h1 h2 h3 h4 show ?thesis by simp
qed

text \<open>
  C2 as claimed fails in two places. A \<^verbatim>\<open>RuntimeError\<close> is handled before the overflow
  test, so an overflow text carried by one gives no retry; and the further call uses the
  defaults of TinyLlama whatever the fallback model is: with Phi-3 as fallback it asks for
  250 tokens, not the 500 of Phi-3.
\<close>

theorem no_retry_on_runtime_error_and_tinyllama_settings:
  "overflow_message ''Requested tokens (900) exceed context window of 512''
   \<and> generate_answer runtime_error_env ''hi'' None False initial_state
       = (Inr (''Error with Phi-3 Mini (Main LLM): ''
               @ ''Requested tokens (900) exceed context window of 512''),
          primary_loaded\<lparr>trace := [Load PHI3_MINI, Call 1 ''hi'' 500 0.2]\<rparr>)
   \<and> trace (snd (generate_answer phi3_fallback_env ''hi'' None False initial_state))
       = [Load LLAMA3_8B, Call 3 ''hi'' 1000 0.2, Call 3 ''hi'' 256 0.2,
          Load PHI3_MINI, Call 1 ''hi'' 250 0.2]
   \<and> default_max_tokens PHI3_MINI = 500"
  by (simp add: gen_defs runtime_error_env_def phi3_fallback_env_def overflow_error_def
      primary_loaded_def)

text \<open>
  Whether the further call is made is decided by comparing the name of the selected model
  with that of TinyLlama, where the comment of the source says \<^verbatim>\<open>try fallback model if not
  already using it\<close>. With TinyLlama as primary and Phi-3 as fallback, Phi-3 is never
  tried; and when Phi-3 does not load and TinyLlama, the fallback, serves under the name
  of Phi-3, TinyLlama is called a third time.
\<close>

lemma fallback_name_test_misfires:
  "trace (snd (generate_answer
      (base_env\<lparr>PRIMARY_MODEL := ''tinyllama'', FALLBACK_MODEL := ''phi3_mini'',
         complete := (\<lambda>tr m prompt max_tokens temperature.
            if m = 2 then Inl overflow_error else Inr [Some ''phi answer''])\<rparr>)
      ''hi'' None False initial_state))
     = [Load TINYLLAMA, Call 2 ''hi'' 250 0.2, Call 2 ''hi'' 250 0.2]
   \<and> trace (snd (generate_answer
      (base_env\<lparr>getenv := map_of [(''TINYLLAMA_MODEL_PATH'', ''/m/tiny.gguf'')],
         complete := (\<lambda>tr m prompt max_tokens temperature. Inl overflow_error)\<rparr>)
      ''hi'' None False initial_state))
     = [Load PHI3_MINI, Load TINYLLAMA, Call 2 ''hi'' 500 0.2, Call 2 ''hi'' 256 0.2,
        Load TINYLLAMA, Call 2 ''hi'' 250 0.2]"
  by (simp add: gen_defs overflow_error_def)

section \<open>Properties of the answer pipeline\<close>

lemma embed_text_keeps_generation_state:
  "embed_text e q s = (r, s1) \<Longrightarrow> generation_state s1 = generation_state s"
  by (auto simp: embed_text_def get_embedding_model_def Let_def
      split: prod.splits sum.splits option.splits if_splits)

text \<open>
  C4. When the question is embedded and the hybrid search returns no hit, whatever the
  question, the filters and \<open>top_k\<close>, \<^verbatim>\<open>ask_podcast_question\<close> returns the fixed answer
  and the state of the generation router is the one it started from: no model was loaded
  and none was called.
\<close>

theorem no_hits_gives_fixed_answer_without_generation:
  assumes "embed_text e user_query s = (Inr query_emb, s1)"
    and "hybrid_search e user_query query_emb top_k podcast_name topics = Inr []"
  shows "ask_podcast_question e user_query podcast_name topics top_k s = (Inr no_information, s1)
       \<and> generation_state s1 = generation_state s
       \<and> calls_after (generation_state s)
            (generation_state (snd (ask_podcast_question e user_query podcast_name topics top_k s)))
          = []"
proof -
  have a: "ask_podcast_question e user_query podcast_name topics top_k s = (Inr no_information, s1)"
    using assms by (simp add: ask_podcast_question_def search_transcripts_def)
  have g: "generation_state s1 = generation_state s"
    using assms(1) by (rule embed_text_keeps_generation_state)
  from a g show ?thesis by (simp add: calls_after_def)
qed

theorem no_hits_gives_fixed_answer_without_generation_witness:
  "embed_text empty_store_env ''what?'' pipeline_start
     = (Inr [0.5, 0.25], pipeline_start\<lparr>embedding_model := Some 9, EMBEDDING_DIMENSION := Some 384\<rparr>)
   \<and> hybrid_search empty_store_env ''what?'' [0.5, 0.25] 5 None None = Inr []
   \<and> fst (ask_podcast_question empty_store_env ''what?'' None None 5 pipeline_start)
       = Inr (''I couldn'' @ [CHR 0x27]
              @ ''t find any relevant information in the podcast transcripts.'')
   \<and> trace (generation_state (snd (ask_podcast_question empty_store_env ''what?'' None None 5
        pipeline_start))) = []"
proof -
  have h1: "embed_text empty_store_env ''what?'' pipeline_start
     = (Inr [0.5, 0.25], pipeline_start\<lparr>embedding_model := Some 9, EMBEDDING_DIMENSION := Some 384\<rparr>)"
    by (simp add: embed_text_def get_embedding_model_def empty_store_env_def pipeline_start_def)
  have h2: "hybrid_search empty_store_env ''what?'' [0.5, 0.25] 5 None None = Inr []"
    by (simp add: hybrid_search_def seq_def empty_store_env_def)
  from no_hits_gives_fixed_answer_without_generation [OF h1 h2]
  show ?thesis
    using h1 h2 by (simp add: no_information_def pipeline_start_def initial_state_def)
qed

text \<open>With one hit the same pipeline does load and call a model.\<close>

lemma one_hit_calls_generation:
  "map is_call (trace (generation_state (snd (ask_podcast_question one_hit_env ''what?'' None None 5
        pipeline_start)))) = [False, True]"
  by (simp add: ask_podcast_question_def search_transcripts_def hybrid_search_def embed_text_def
      get_embedding_model_def one_hit_env_def empty_store_env_def pipeline_start_def
      build_context_def render_hit_def subscript_def truthy_def demo_source_def gen_defs)

end
